theory Spec2Isabelle
  imports Main
begin


section \<open>Values of the host environment\<close>

text \<open>
  The library adapts the browser's object database to promises. The database engine is
  the host's, not the library's: it is modelled here as far as the library's code
  depends on it (databases by name with a version and a list of object stores, the
  uniqueness of store and index names, the order of the events of a request and of
  its transaction). Version numbers are JavaScript numbers holding integers; they are
  modelled as unbounded integers.
\<close>

datatype js_error = Error string | TypeError string | DOMException string

text \<open>What a promise is rejected with: a caught exception, an event object of the
  engine (named by the error it carries), or a plain string.\<close>

datatype reason = Thrown js_error | ErrorEvent string | Text string

datatype 'a promise = Pending | Resolved 'a | Rejected reason

text \<open>Only the first call of \<open>resolve\<close> or \<open>reject\<close> settles a promise.\<close>

definition resolve :: "'a \<Rightarrow> 'a promise \<Rightarrow> 'a promise" where
  "resolve v p = (case p of Pending \<Rightarrow> Resolved v | _ \<Rightarrow> p)"

definition reject :: "reason \<Rightarrow> 'a promise \<Rightarrow> 'a promise" where
  "reject r p = (case p of Pending \<Rightarrow> Rejected r | _ \<Rightarrow> p)"

text \<open>A template literal prints an integer in decimal.\<close>

function show_nat :: "nat \<Rightarrow> string" where
  "show_nat n =
     (if n < 10 then [''0123456789'' ! n]
      else show_nat (n div 10) @ [''0123456789'' ! (n mod 10)])"
  by pat_completeness auto
termination
  by (relation "measure id") auto

definition show_int :: "int \<Rightarrow> string" where
  "show_int i = (if i < 0 then CHR ''-'' # show_nat (nat (- i)) else show_nat (nat i))"

section \<open>Schema descriptors (indexed-hooks.ts)\<close>

record StoreConfig =
  keyPath :: string
  autoIncrement :: bool

record ObjectStoreSchema =
  name :: string
  keypath :: string
  unique :: bool

record ObjectStoreMeta =
  store :: string
  storeConfig :: StoreConfig
  storeSchema :: "ObjectStoreSchema list"

section \<open>The database engine\<close>

record ('k, 'v) IDBObjectStore =
  storeName :: string
  parameters :: StoreConfig
  indexes :: "ObjectStoreSchema list"
  records :: "('k \<times> 'v) list"

record ('k, 'v) IDBDatabase =
  version :: int
  objectStores :: "('k, 'v) IDBObjectStore list"

definition objectStoreNames :: "('k, 'v) IDBDatabase \<Rightarrow> string list" where
  "objectStoreNames d = map storeName (objectStores d)"

definition contains :: "string list \<Rightarrow> string \<Rightarrow> bool" where
  "contains names n = (n \<in> set names)"

text \<open>\<open>createObjectStore\<close> and \<open>createIndex\<close> of the engine raise a
  \<open>ConstraintError\<close> when the name is taken; otherwise the new store (index) is added
  after the existing ones. The engine's checks of the syntax of a key path are outside
  the model.\<close>

definition createObjectStore ::
  "string \<Rightarrow> StoreConfig \<Rightarrow> ('k, 'v) IDBDatabase \<Rightarrow> js_error + ('k, 'v) IDBDatabase" where
  "createObjectStore n cfg d =
     (if contains (objectStoreNames d) n then Inl (DOMException ''ConstraintError'')
      else Inr (d\<lparr>objectStores := objectStores d @
                  [\<lparr>storeName = n, parameters = cfg, indexes = [], records = []\<rparr>]\<rparr>))"

definition createIndex ::
  "string \<Rightarrow> ObjectStoreSchema \<Rightarrow> ('k, 'v) IDBDatabase \<Rightarrow> js_error + ('k, 'v) IDBDatabase" where
  "createIndex n idx d =
     (case find (\<lambda>s. storeName s = n) (objectStores d) of
        None \<Rightarrow> Inl (DOMException ''InvalidStateError'')
      | Some s \<Rightarrow>
          if name idx \<in> set (map name (indexes s)) then Inl (DOMException ''ConstraintError'')
          else Inr (d\<lparr>objectStores :=
                       map (\<lambda>s. if storeName s = n then s\<lparr>indexes := indexes s @ [idx]\<rparr> else s)
                         (objectStores d)\<rparr>))"

section \<open>The migration sequencer (indexed-db.ts)\<close>

text \<open>An exception leaves the database handle as it was when it was raised, so a
  function that may throw returns the thrown error (if any) with the handle.\<close>

text \<open>The inner \<open>forEach\<close> of \<open>defaultMigrationBehaviour\<close>: one \<open>createIndex\<close>
  per declared index of the store just created.\<close>

fun createIndexes ::
  "string \<Rightarrow> ObjectStoreSchema list \<Rightarrow> ('k, 'v) IDBDatabase \<Rightarrow> js_error option \<times> ('k, 'v) IDBDatabase" where
  "createIndexes n [] d = (None, d)"
| "createIndexes n (schema # rest) d =
     (case createIndex n schema d of
        Inl e \<Rightarrow> (Some e, d)
      | Inr d' \<Rightarrow> createIndexes n rest d')"

text \<open>The outer \<open>forEach\<close>: a declared store is created when the database has no
  store of its name.\<close>

fun createStores ::
  "ObjectStoreMeta list \<Rightarrow> ('k, 'v) IDBDatabase \<Rightarrow> js_error option \<times> ('k, 'v) IDBDatabase" where
  "createStores [] d = (None, d)"
| "createStores (m # rest) d =
     (if \<not> contains (objectStoreNames d) (store m) then
        (case createObjectStore (store m) (storeConfig m) d of
           Inl e \<Rightarrow> (Some e, d)
         | Inr d1 \<Rightarrow>
             (case createIndexes (store m) (storeSchema m) d1 of
                (Some e, d2) \<Rightarrow> (Some e, d2)
              | (None, d2) \<Rightarrow> createStores rest d2))
      else createStores rest d)"

definition defaultMigrationBehaviour ::
  "('k, 'v) IDBDatabase \<Rightarrow> ObjectStoreMeta list \<Rightarrow> (js_error + bool) \<times> ('k, 'v) IDBDatabase" where
  "defaultMigrationBehaviour database storeSchemas =
     (case createStores storeSchemas database of
        (Some e, d) \<Rightarrow> (Inl e, d)
      | (None, d) \<Rightarrow> (Inr True, d))"

text \<open>A migration: its target version and its \<open>up\<close> step, which may be absent. The
  step receives the handle, the store descriptors and the default behaviour, and returns
  its success flag (or throws), with the handle as it left it.\<close>

record ('k, 'v) IDBMigration =
  toVersion :: int
  up :: "(('k, 'v) IDBDatabase \<Rightarrow> ObjectStoreMeta list \<Rightarrow>
           (('k, 'v) IDBDatabase \<Rightarrow> ObjectStoreMeta list \<Rightarrow> (js_error + bool) \<times> ('k, 'v) IDBDatabase) \<Rightarrow>
           (js_error + bool) \<times> ('k, 'v) IDBDatabase) option"

record IDBVersionChangeEvent =
  oldVersion :: int
  newVersion :: "int option"

text \<open>\<open>Array.prototype.find\<close>: the first element that satisfies the predicate, here
  with its position in the array, which identifies the migration in the record of the
  steps invoked.\<close>

fun find_indexed :: "('a \<Rightarrow> bool) \<Rightarrow> 'a list \<Rightarrow> (nat \<times> 'a) option" where
  "find_indexed P [] = None"
| "find_indexed P (x # xs) =
     (if P x then Some (0, x)
      else map_option (\<lambda>(i, y). (Suc i, y)) (find_indexed P xs))"

text \<open>The loop of \<open>applyMigrations\<close>, from \<open>nextVersion\<close> while
  \<open>nextVersion < newVersion + 1\<close>. The result is the error thrown (if any), the handle,
  and the positions of the migrations whose \<open>up\<close> was called, in the order of the calls.\<close>

function migrate ::
  "int \<Rightarrow> int \<Rightarrow> ('k, 'v) IDBDatabase \<Rightarrow> ObjectStoreMeta list \<Rightarrow> ('k, 'v) IDBMigration list \<Rightarrow> nat list \<Rightarrow>
   js_error option \<times> ('k, 'v) IDBDatabase \<times> nat list" where
  "migrate nextVersion newV database storeSchemas migrations invoked =
     (if nextVersion < newV + 1 then
        (case find_indexed (\<lambda>x. toVersion x = nextVersion) migrations of
           None \<Rightarrow>
             (Some (Error (''Db configuration should contain a migration for version '' @ show_int nextVersion)),
              database, invoked)
         | Some (i, migration) \<Rightarrow>
             (case up migration of
                None \<Rightarrow>
                  (Some (Error (''Up callback hasn't been implemented for migration with version '' @ show_int nextVersion)),
                   database, invoked)
              | Some f \<Rightarrow>
                  (case f database storeSchemas defaultMigrationBehaviour of
                     (Inl e, d) \<Rightarrow> (Some e, d, invoked @ [i])
                   | (Inr succeeded, d) \<Rightarrow>
                       if \<not> succeeded then
                         (Some (Error (''Migration for version '' @ show_int nextVersion @ '' has failed'')),
                          d, invoked @ [i])
                       else migrate (nextVersion + 1) newV d storeSchemas migrations (invoked @ [i]))))
      else (None, database, invoked))"
  by pat_completeness auto
termination
  by (relation "measure (\<lambda>(nextVersion, newV, _). nat (newV + 1 - nextVersion))") auto

declare migrate.simps [simp del]

definition applyMigrations ::
  "IDBVersionChangeEvent \<Rightarrow> ('k, 'v) IDBDatabase \<Rightarrow> ObjectStoreMeta list \<Rightarrow> ('k, 'v) IDBMigration list \<Rightarrow>
   js_error option \<times> ('k, 'v) IDBDatabase \<times> nat list" where
  "applyMigrations event database storeSchemas migrations =
     (case newVersion event of
        None \<Rightarrow> (Some (Error ''New version of indexedDb hasn't been set''), database, [])
      | Some newV \<Rightarrow> migrate (oldVersion event + 1) newV database storeSchemas migrations [])"

text \<open>\<open>indexedDB.open\<close>: a version below 1 is a \<open>TypeError\<close> of the call; a version
  below the stored one is an error event; a version above it opens an upgrade
  transaction on the handle, already at the new version; otherwise the open succeeds.
  A database that was never opened has version 0 and no store. Other connections
  (the \<open>blocked\<close> event) are outside the model.\<close>

datatype ('k, 'v) open_response =
    OpenThrows js_error
  | OpenError string
  | UpgradeNeeded IDBVersionChangeEvent "('k, 'v) IDBDatabase"
  | OpenSuccess "('k, 'v) IDBDatabase"

definition idb_open ::
  "(string \<Rightarrow> ('k, 'v) IDBDatabase) \<Rightarrow> string \<Rightarrow> int \<Rightarrow> ('k, 'v) open_response" where
  "idb_open F dbName ver =
     (if ver < 1 then OpenThrows (TypeError ''version'')
      else if ver < version (F dbName) then OpenError ''VersionError''
      else if version (F dbName) < ver then
        UpgradeNeeded \<lparr>oldVersion = version (F dbName), newVersion = Some ver\<rparr>
          ((F dbName)\<lparr>version := ver\<rparr>)
      else OpenSuccess (F dbName))"

definition fresh :: "string \<Rightarrow> ('k, 'v) IDBDatabase" where
  "fresh = (\<lambda>_. \<lparr>version = 0, objectStores = []\<rparr>)"

text \<open>What an initialization did: the promise it returned, whether the upgrade
  transaction was aborted, the migrations invoked, and the databases afterwards.\<close>

record ('k, 'v) initialization =
  returned :: "unit promise"
  aborted :: bool
  invoked :: "nat list"
  factory :: "string \<Rightarrow> ('k, 'v) IDBDatabase"

text \<open>\<open>CreateObjectStore\<close>. In the upgrade handler the \<open>try\<close> block resolves the
  promise after the migrations (or the default behaviour) returned; the \<open>catch\<close>
  block rejects it and aborts the upgrade transaction, which restores the database. The
  handler closes the connection, so the request ends with an error event in both cases,
  whose \<open>reject\<close> finds the promise settled.\<close>

definition CreateObjectStore ::
  "(string \<Rightarrow> ('k, 'v) IDBDatabase) \<Rightarrow> string \<Rightarrow> int \<Rightarrow> ObjectStoreMeta list \<Rightarrow>
   ('k, 'v) IDBMigration list option \<Rightarrow> ('k, 'v) initialization" where
  "CreateObjectStore F dbName ver storeSchemas migrations =
     (case idb_open F dbName ver of
        OpenThrows e \<Rightarrow>
          \<lparr>returned = Rejected (Thrown e), aborted = False, invoked = [], factory = F\<rparr>
      | OpenError n \<Rightarrow>
          \<lparr>returned = reject (ErrorEvent n) Pending, aborted = False, invoked = [], factory = F\<rparr>
      | OpenSuccess d \<Rightarrow>
          \<lparr>returned = resolve () Pending, aborted = False, invoked = [], factory = F\<rparr>
      | UpgradeNeeded event database \<Rightarrow>
          (case (case migrations of
                   Some ms \<Rightarrow> applyMigrations event database storeSchemas ms
                 | None \<Rightarrow>
                     (case defaultMigrationBehaviour database storeSchemas of
                        (Inl e, d) \<Rightarrow> (Some e, d, [])
                      | (Inr _, d) \<Rightarrow> (None, d, []))) of
             (None, d, called) \<Rightarrow>
               \<lparr>returned = reject (ErrorEvent ''AbortError'') (resolve () Pending),
                aborted = False, invoked = called, factory = F(dbName := d)\<rparr>
           | (Some e, d, called) \<Rightarrow>
               \<lparr>returned = reject (ErrorEvent ''AbortError'') (reject (Thrown e) Pending),
                aborted = True, invoked = called, factory = F\<rparr>))"

section \<open>The connection opener (indexed-db.ts)\<close>

text \<open>What an \<open>openDatabase\<close> did: the promise it returned, the calls of the upgrade
  callback (the event, the second argument, and the state of the promise at the call),
  and the databases afterwards.\<close>

record ('k, 'v) open_outcome =
  opened :: "('k, 'v) IDBDatabase promise"
  forwarded :: "(IDBVersionChangeEvent \<times> ('k, 'v) IDBDatabase option \<times> ('k, 'v) IDBDatabase promise) list"
  opened_factory :: "string \<Rightarrow> ('k, 'v) IDBDatabase"

text \<open>\<open>openDatabase\<close>. The local variable \<open>db\<close> is declared without a value and is
  assigned by the success handler only, so it is still undefined (\<open>None\<close>) when the
  upgrade handler passes it to the callback. The callback is given the event, \<open>db\<close>, and
  (as the target of the event) the handle under upgrade; it returns that handle as it
  left it, or throws, which aborts the upgrade and ends the request with an error
  event (the text of an error is abbreviated to its name). An exception of
  \<open>indexedDB.open\<close> in the executor rejects the promise.\<close>

definition openDatabase ::
  "(string \<Rightarrow> ('k, 'v) IDBDatabase) \<Rightarrow> string \<Rightarrow> int \<Rightarrow>
   (IDBVersionChangeEvent \<Rightarrow> ('k, 'v) IDBDatabase option \<Rightarrow> ('k, 'v) IDBDatabase \<Rightarrow>
      js_error + ('k, 'v) IDBDatabase) option \<Rightarrow> ('k, 'v) open_outcome" where
  "openDatabase F dbName ver upgradeCallback =
     (case idb_open F dbName ver of
        OpenThrows e \<Rightarrow>
          \<lparr>opened = Rejected (Thrown e), forwarded = [], opened_factory = F\<rparr>
      | OpenError n \<Rightarrow>
          \<lparr>opened = reject (Text (''IndexedDB error: '' @ n)) Pending, forwarded = [],
           opened_factory = F\<rparr>
      | OpenSuccess d \<Rightarrow>
          \<lparr>opened = resolve d Pending, forwarded = [], opened_factory = F\<rparr>
      | UpgradeNeeded event d \<Rightarrow>
          (case upgradeCallback of
             None \<Rightarrow>
               \<lparr>opened = resolve d Pending, forwarded = [], opened_factory = F(dbName := d)\<rparr>
           | Some callback \<Rightarrow>
               (let db = None in
                case callback event db d of
                  Inl e \<Rightarrow>
                    \<lparr>opened = reject (Text (''IndexedDB error: AbortError'')) Pending,
                     forwarded = [(event, db, Pending)], opened_factory = F\<rparr>
                | Inr d' \<Rightarrow>
                    \<lparr>opened = resolve d' Pending, forwarded = [(event, db, Pending)],
                     opened_factory = F(dbName := d')\<rparr>)))"

section \<open>Requests and transactions of the engine\<close>

datatype DBMode = readonly | readwrite

text \<open>What a promise of the operations is settled with.\<close>

datatype ('k, 'v) js_value =
    Undefined
  | Null
  | Stored 'v
  | StoredList "'v list"
  | Key 'k
  | Cursor 'k 'v
  | Event string

text \<open>The events of one request and its transaction, in the order the engine fires
  them: the success event of the request, then (the changes being committed) the
  complete event of the transaction; or the error event of the request, which bubbles
  to the transaction and aborts it.\<close>

datatype ('k, 'v) idb_event =
    RequestSuccess "('k, 'v) js_value"
  | RequestError string
  | TransactionError string
  | TransactionComplete
  | TransactionAbort

text \<open>How the engine determines the key of a value to be written (in-line or
  out-of-line keys, the key generator) and whether the write violates a constraint is
  not the library's concern: it is a parameter of the model, as is the evaluation of
  the key path of an index. A write is refused by an exception of the call, fails
  with an error event of the request, or is accepted under a key.\<close>

datatype ('k, 'v) write_decision = Refuse js_error | Fail string | Accept 'k 'v

record ('k, 'v) engine =
  assign :: "('k, 'v) IDBObjectStore \<Rightarrow> 'v \<Rightarrow> 'k option \<Rightarrow> ('k, 'v) write_decision"
  index_key :: "ObjectStoreSchema \<Rightarrow> 'v \<Rightarrow> 'k option"

datatype ('k, 'v) request =
    GetAllRequest
  | GetRequest 'k
  | IndexGetRequest string 'k
  | AddRequest 'v "'k option"
  | PutRequest 'v "'k option"
  | DeleteRequest 'k
  | ClearRequest

fun put_record :: "'k \<Rightarrow> 'v \<Rightarrow> ('k \<times> 'v) list \<Rightarrow> ('k \<times> 'v) list" where
  "put_record k v [] = [(k, v)]"
| "put_record k v ((k', v') # rest) =
     (if k' = k then (k, v) # rest else (k', v') # put_record k v rest)"

text \<open>A request on a store: an exception of the call, or the request made, which
  fails with a named error or succeeds with a result and the store afterwards.\<close>

fun issue ::
  "('k, 'v) engine \<Rightarrow> ('k, 'v) IDBObjectStore \<Rightarrow> ('k, 'v) request \<Rightarrow>
   js_error + (string + ('k, 'v) js_value \<times> ('k, 'v) IDBObjectStore)" where
  "issue E s GetAllRequest = Inr (Inr (StoredList (map snd (records s)), s))"
| "issue E s (GetRequest k) =
     Inr (Inr ((case map_of (records s) k of None \<Rightarrow> Undefined | Some v \<Rightarrow> Stored v), s))"
| "issue E s (IndexGetRequest indexName k) =
     (case find (\<lambda>i. name i = indexName) (indexes s) of
        None \<Rightarrow> Inl (DOMException ''NotFoundError'')
      | Some i \<Rightarrow>
          Inr (Inr ((case find (\<lambda>(_, v). index_key E i v = Some k) (records s) of
                       None \<Rightarrow> Undefined
                     | Some (_, v) \<Rightarrow> Stored v), s)))"
| "issue E s (AddRequest v key) =
     (case assign E s v key of
        Refuse e \<Rightarrow> Inl e
      | Fail n \<Rightarrow> Inr (Inl n)
      | Accept k v' \<Rightarrow>
          if k \<in> fst ` set (records s) then Inr (Inl ''ConstraintError'')
          else Inr (Inr (Key k, s\<lparr>records := records s @ [(k, v')]\<rparr>)))"
| "issue E s (PutRequest v key) =
     (case assign E s v key of
        Refuse e \<Rightarrow> Inl e
      | Fail n \<Rightarrow> Inr (Inl n)
      | Accept k v' \<Rightarrow> Inr (Inr (Key k, s\<lparr>records := put_record k v' (records s)\<rparr>)))"
| "issue E s (DeleteRequest k) =
     Inr (Inr (Undefined, s\<lparr>records := filter (\<lambda>(k', _). k' \<noteq> k) (records s)\<rparr>))"
| "issue E s ClearRequest = Inr (Inr (Undefined, s\<lparr>records := []\<rparr>))"

text \<open>\<open>IDBDatabase.transaction\<close> followed by \<open>objectStore\<close>: a \<open>NotFoundError\<close> when
  the database has no store of the name.\<close>

definition transaction ::
  "('k, 'v) IDBDatabase \<Rightarrow> string \<Rightarrow> DBMode \<Rightarrow> js_error + ('k, 'v) IDBObjectStore" where
  "transaction d storeNm mode =
     (case find (\<lambda>s. storeName s = storeNm) (objectStores d) of
        None \<Rightarrow> Inl (DOMException ''NotFoundError'')
      | Some s \<Rightarrow> Inr s)"

definition commit :: "('k, 'v) IDBObjectStore \<Rightarrow> ('k, 'v) IDBDatabase \<Rightarrow> ('k, 'v) IDBDatabase" where
  "commit s' d =
     d\<lparr>objectStores := map (\<lambda>s. if storeName s = storeName s' then s' else s) (objectStores d)\<rparr>"

section \<open>Helpers of the operations that are not among the sources\<close>

text \<open>Modelled from the spec: the value \<open>validateBeforeTransaction\<close> rejects with (module
  \<open>Utils\<close> is not among the sources). The specification does not give its wording;
  this text stands for it.\<close>

definition store_missing :: "string \<Rightarrow> reason" where
  "store_missing storeNm = Text (''objectStore does not exist: '' @ storeNm)"

text \<open>Modelled from the spec: \<open>validateBeforeTransaction\<close> (module \<open>Utils\<close>, which is
  not among the sources). The specification: every read path first validates that
  the target store exists within the opened database and rejects immediately if it
  does not, a value-level existence check, not an exception. So the helper calls the
  \<open>reject\<close> it is given and returns.\<close>

definition validateBeforeTransaction ::
  "('k, 'v) IDBDatabase \<Rightarrow> string \<Rightarrow> 'a promise \<Rightarrow> 'a promise" where
  "validateBeforeTransaction db storeNm p =
     (if contains (objectStoreNames db) storeNm then p else reject (store_missing storeNm) p)"

text \<open>Modelled from the spec: \<open>createReadonlyTransaction\<close> (module of its name, which is
  not among the sources). The specification: each operation starts a read-only or
  read-write transaction on its store. The helper returns the store of the
  transaction, or throws what the engine throws.\<close>

definition createReadonlyTransaction ::
  "('k, 'v) IDBDatabase \<Rightarrow> string \<Rightarrow> js_error + ('k, 'v) IDBObjectStore" where
  "createReadonlyTransaction db storeNm = transaction db storeNm readonly"

text \<open>Modelled from the spec: \<open>createReadwriteTransaction\<close> (module of its name, which is
  not among the sources), as the read-only helper, in the other mode.\<close>

definition createReadwriteTransaction ::
  "('k, 'v) IDBDatabase \<Rightarrow> string \<Rightarrow> js_error + ('k, 'v) IDBObjectStore" where
  "createReadwriteTransaction db storeNm = transaction db storeNm readwrite"

text \<open>Modelled from the spec: the handler both helpers set for the complete event of
  the transaction. The specification: the promise is resolved or rejected from the
  completion events of the transaction or of the request; the helpers are given
  \<open>resolve\<close> and \<open>reject\<close> for that.\<close>

definition helper_oncomplete :: "('k, 'v) js_value promise \<Rightarrow> ('k, 'v) js_value promise" where
  "helper_oncomplete p = resolve (Event ''complete'') p"

text \<open>Modelled from the spec: the handler both helpers set for the error event of the
  transaction (transaction errors propagate as rejections carrying the event).\<close>

definition helper_onerror :: "string \<Rightarrow> ('k, 'v) js_value promise \<Rightarrow> ('k, 'v) js_value promise" where
  "helper_onerror n p = reject (ErrorEvent n) p"

text \<open>Modelled from the spec: the handler both helpers set for the abort event of the
  transaction.\<close>

definition helper_onabort :: "('k, 'v) js_value promise \<Rightarrow> ('k, 'v) js_value promise" where
  "helper_onabort p = reject (ErrorEvent ''abort'') p"

section \<open>The operation facade (indexed-db.ts)\<close>

datatype helper =
    CallOpenDatabase
  | CallValidateBeforeTransaction
  | CallCreateReadonlyTransaction
  | CallCreateReadwriteTransaction

text \<open>What an operation did: the promise it returned (in its final state), the helpers
  it called, the exception that escaped the callback of \<open>then\<close> (if any), the
  transactions the engine started, the events fired with the state of the promise after
  the handlers of each, and the databases afterwards.\<close>

record ('k, 'v) outcome =
  returns :: "('k, 'v) js_value promise"
  calls :: "helper list"
  uncaught :: "js_error option"
  transactions :: "(string \<times> DBMode) list"
  timeline :: "(('k, 'v) idb_event \<times> ('k, 'v) js_value promise) list"
  databases :: "string \<Rightarrow> ('k, 'v) IDBDatabase"

text \<open>The common start of the operations: \<open>openDatabase(dbName, version).then(db => ...)\<close>
  (no upgrade callback, and no handler for a rejected open, so the promise of the
  operation then stays pending), the validation (when the operation has one), and the
  transaction. An exception of the transaction helper escapes the callback and leaves
  the promise as the validation left it.\<close>

definition prepare ::
  "bool \<Rightarrow> DBMode \<Rightarrow> (string \<Rightarrow> ('k, 'v) IDBDatabase) \<Rightarrow> string \<Rightarrow> int \<Rightarrow> string \<Rightarrow>
   ('k, 'v) outcome +
   (('k, 'v) js_value promise \<times> helper list \<times> ('k, 'v) IDBObjectStore \<times> ('k, 'v) IDBDatabase \<times>
    (string \<Rightarrow> ('k, 'v) IDBDatabase))" where
  "prepare validating mode F dbName ver currentStore =
     (let conn = openDatabase F dbName ver None in
      case opened conn of
        Resolved db \<Rightarrow>
          (let p = (if validating then validateBeforeTransaction db currentStore Pending else Pending);
               cs = [CallOpenDatabase] @ (if validating then [CallValidateBeforeTransaction] else []) @
                    [case mode of readonly \<Rightarrow> CallCreateReadonlyTransaction
                               | readwrite \<Rightarrow> CallCreateReadwriteTransaction]
           in case (case mode of readonly \<Rightarrow> createReadonlyTransaction db currentStore
                              | readwrite \<Rightarrow> createReadwriteTransaction db currentStore) of
                Inl e \<Rightarrow>
                  Inl \<lparr>returns = p, calls = cs, uncaught = Some e, transactions = [],
                       timeline = [], databases = opened_factory conn\<rparr>
              | Inr s \<Rightarrow> Inr (p, cs, s, db, opened_factory conn))
      | _ \<Rightarrow>
          Inl \<lparr>returns = Pending, calls = [CallOpenDatabase], uncaught = None, transactions = [],
               timeline = [], databases = opened_factory conn\<rparr>)"

text \<open>An operation, as its source text determines it: whether it validates, the mode
  of its transaction, its request, the handlers it sets on the request, and the
  \<open>oncomplete\<close> it sets on the transaction (replacing the helper's).\<close>

record ('k, 'v) operation =
  validates :: bool
  mode :: DBMode
  request :: "('k, 'v) request"
  request_onsuccess ::
    "(('k, 'v) js_value \<Rightarrow> ('k, 'v) js_value promise \<Rightarrow> ('k, 'v) js_value promise) option"
  request_onerror :: "(string \<Rightarrow> ('k, 'v) js_value promise \<Rightarrow> ('k, 'v) js_value promise) option"
  transaction_oncomplete :: "(('k, 'v) js_value promise \<Rightarrow> ('k, 'v) js_value promise) option"

fun deliver ::
  "('k, 'v) operation \<Rightarrow> ('k, 'v) idb_event \<Rightarrow> ('k, 'v) js_value promise \<Rightarrow> ('k, 'v) js_value promise" where
  "deliver w (RequestSuccess r) p = (case request_onsuccess w of Some h \<Rightarrow> h r p | None \<Rightarrow> p)"
| "deliver w (RequestError n) p = (case request_onerror w of Some h \<Rightarrow> h n p | None \<Rightarrow> p)"
| "deliver w (TransactionError n) p = helper_onerror n p"
| "deliver w TransactionComplete p =
     (case transaction_oncomplete w of Some h \<Rightarrow> h p | None \<Rightarrow> helper_oncomplete p)"
| "deliver w TransactionAbort p = helper_onabort p"

fun dispatch ::
  "('k, 'v) operation \<Rightarrow> ('k, 'v) idb_event list \<Rightarrow> ('k, 'v) js_value promise \<Rightarrow>
   (('k, 'v) idb_event \<times> ('k, 'v) js_value promise) list" where
  "dispatch w [] p = []"
| "dispatch w (e # es) p = (e, deliver w e p) # dispatch w es (deliver w e p)"

definition final :: "'p \<Rightarrow> ('e \<times> 'p) list \<Rightarrow> 'p" where
  "final p fired = (if fired = [] then p else snd (last fired))"

text \<open>An operation with one request. A request whose call throws leaves the
  transaction without a request, and it completes; a request that fails aborts it; a
  request that succeeds is committed before the transaction completes.\<close>

definition perform ::
  "('k, 'v) engine \<Rightarrow> (string \<Rightarrow> ('k, 'v) IDBDatabase) \<Rightarrow> string \<Rightarrow> int \<Rightarrow> string \<Rightarrow>
   ('k, 'v) operation \<Rightarrow> ('k, 'v) outcome" where
  "perform E F dbName ver currentStore w =
     (case prepare (validates w) (mode w) F dbName ver currentStore of
        Inl out \<Rightarrow> out
      | Inr (p, cs, s, db, F1) \<Rightarrow>
          (case issue E s (request w) of
             Inl e \<Rightarrow>
               (let fired = dispatch w [TransactionComplete] p in
                \<lparr>returns = final p fired, calls = cs, uncaught = Some e,
                 transactions = [(currentStore, mode w)], timeline = fired, databases = F1\<rparr>)
           | Inr (Inl n) \<Rightarrow>
               (let fired = dispatch w [RequestError n, TransactionError n, TransactionAbort] p in
                \<lparr>returns = final p fired, calls = cs, uncaught = None,
                 transactions = [(currentStore, mode w)], timeline = fired, databases = F1\<rparr>)
           | Inr (Inr (result, s')) \<Rightarrow>
               (let fired = dispatch w [RequestSuccess result, TransactionComplete] p in
                \<lparr>returns = final p fired, calls = cs, uncaught = None,
                 transactions = [(currentStore, mode w)], timeline = fired,
                 databases = F1(dbName := commit s' db)\<rparr>)))"

subsection \<open>Readonly operations\<close>

definition getAll ::
  "('k, 'v) engine \<Rightarrow> (string \<Rightarrow> ('k, 'v) IDBDatabase) \<Rightarrow> string \<Rightarrow> int \<Rightarrow> string \<Rightarrow> ('k, 'v) outcome" where
  "getAll E F dbName ver currentStore =
     perform E F dbName ver currentStore
       \<lparr>validates = True, mode = readonly, request = GetAllRequest,
        request_onsuccess = Some (\<lambda>result. resolve result),
        request_onerror = Some (\<lambda>error. reject (ErrorEvent error)),
        transaction_oncomplete = None\<rparr>"

definition getByID ::
  "('k, 'v) engine \<Rightarrow> (string \<Rightarrow> ('k, 'v) IDBDatabase) \<Rightarrow> string \<Rightarrow> int \<Rightarrow> string \<Rightarrow> 'k \<Rightarrow>
   ('k, 'v) outcome" where
  "getByID E F dbName ver currentStore k =
     perform E F dbName ver currentStore
       \<lparr>validates = True, mode = readonly, request = GetRequest k,
        request_onsuccess = Some (\<lambda>result. resolve result),
        request_onerror = None,
        transaction_oncomplete = None\<rparr>"

text \<open>\<open>openCursor\<close>. The cursor request fires one success event per entry for as long as
  the callback advances the cursor, and a last one without an entry when the range is
  exhausted. The handler of the operation calls the callback and then \<open>resolve\<close>, at
  every success event. The callback is given the cursor (or null) and its own state,
  and says whether it called \<open>continue\<close>.\<close>

fun cursor_events ::
  "(('k, 'v) js_value \<Rightarrow> 'u \<Rightarrow> 'u \<times> bool) \<Rightarrow> ('k \<times> 'v) list \<Rightarrow> 'u \<Rightarrow> ('k, 'v) js_value promise \<Rightarrow>
   (('k, 'v) idb_event \<times> ('k, 'v) js_value promise) list \<times> 'u \<times> ('k, 'v) js_value promise" where
  "cursor_events cursorCallback [] u p =
     (let (u', _) = cursorCallback Null u;
          p' = resolve Undefined p
      in ([(RequestSuccess Null, p')], u', p'))"
| "cursor_events cursorCallback ((k, v) # rest) u p =
     (let (u', continue) = cursorCallback (Cursor k v) u;
          p' = resolve Undefined p
      in if continue then
           (let (fired, u'', p'') = cursor_events cursorCallback rest u' p'
            in ((RequestSuccess (Cursor k v), p') # fired, u'', p''))
         else ([(RequestSuccess (Cursor k v), p')], u', p'))"

text \<open>The values of the success events among the events fired.\<close>

fun delivered :: "(('k, 'v) idb_event \<times> 'p) list \<Rightarrow> ('k, 'v) js_value list" where
  "delivered [] = []"
| "delivered ((RequestSuccess r, _) # rest) = r # delivered rest"
| "delivered (_ # rest) = delivered rest"

definition openCursor ::
  "(string \<Rightarrow> ('k, 'v) IDBDatabase) \<Rightarrow> string \<Rightarrow> int \<Rightarrow> string \<Rightarrow>
   (('k, 'v) js_value \<Rightarrow> 'u \<Rightarrow> 'u \<times> bool) \<Rightarrow> 'u \<Rightarrow> ('k \<Rightarrow> bool) option \<Rightarrow> ('k, 'v) outcome \<times> 'u" where
  "openCursor F dbName ver currentStore cursorCallback u keyRange =
     (case prepare True readonly F dbName ver currentStore of
        Inl out \<Rightarrow> (out, u)
      | Inr (p, cs, s, db, F1) \<Rightarrow>
          (let entries = (case keyRange of None \<Rightarrow> records s
                          | Some inRange \<Rightarrow> filter (\<lambda>(k, _). inRange k) (records s));
               (fired, u', p') = cursor_events cursorCallback entries u p;
               completed = [(TransactionComplete, helper_oncomplete p')]
           in (\<lparr>returns = final p' completed, calls = cs, uncaught = None,
                transactions = [(currentStore, readonly)], timeline = fired @ completed,
                databases = F1\<rparr>, u')))"

definition getByIndex ::
  "('k, 'v) engine \<Rightarrow> (string \<Rightarrow> ('k, 'v) IDBDatabase) \<Rightarrow> string \<Rightarrow> int \<Rightarrow> string \<Rightarrow> string \<Rightarrow> 'k \<Rightarrow>
   ('k, 'v) outcome" where
  "getByIndex E F dbName ver currentStore indexName key =
     perform E F dbName ver currentStore
       \<lparr>validates = True, mode = readonly, request = IndexGetRequest indexName key,
        request_onsuccess = Some (\<lambda>result. resolve result),
        request_onerror = None,
        transaction_oncomplete = None\<rparr>"

subsection \<open>Readwrite operations\<close>

definition add ::
  "('k, 'v) engine \<Rightarrow> (string \<Rightarrow> ('k, 'v) IDBDatabase) \<Rightarrow> string \<Rightarrow> int \<Rightarrow> string \<Rightarrow> 'v \<Rightarrow> 'k option \<Rightarrow>
   ('k, 'v) outcome" where
  "add E F dbName ver currentStore v key =
     perform E F dbName ver currentStore
       \<lparr>validates = False, mode = readwrite, request = AddRequest v key,
        request_onsuccess = Some (\<lambda>result. resolve result),
        request_onerror = Some (\<lambda>error. reject (ErrorEvent error)),
        transaction_oncomplete = None\<rparr>"

definition update ::
  "('k, 'v) engine \<Rightarrow> (string \<Rightarrow> ('k, 'v) IDBDatabase) \<Rightarrow> string \<Rightarrow> int \<Rightarrow> string \<Rightarrow> 'v \<Rightarrow> 'k option \<Rightarrow>
   ('k, 'v) outcome" where
  "update E F dbName ver currentStore v key =
     perform E F dbName ver currentStore
       \<lparr>validates = True, mode = readwrite, request = PutRequest v key,
        request_onsuccess = None,
        request_onerror = None,
        transaction_oncomplete = Some (\<lambda>p. resolve (Event ''complete'') p)\<rparr>"

definition deleteRecord ::
  "('k, 'v) engine \<Rightarrow> (string \<Rightarrow> ('k, 'v) IDBDatabase) \<Rightarrow> string \<Rightarrow> int \<Rightarrow> string \<Rightarrow> 'k \<Rightarrow>
   ('k, 'v) outcome" where
  "deleteRecord E F dbName ver currentStore key =
     perform E F dbName ver currentStore
       \<lparr>validates = True, mode = readwrite, request = DeleteRequest key,
        request_onsuccess = Some (\<lambda>result. resolve (Event ''success'')),
        request_onerror = None,
        transaction_oncomplete = None\<rparr>"

definition clear ::
  "('k, 'v) engine \<Rightarrow> (string \<Rightarrow> ('k, 'v) IDBDatabase) \<Rightarrow> string \<Rightarrow> int \<Rightarrow> string \<Rightarrow> ('k, 'v) outcome" where
  "clear E F dbName ver currentStore =
     perform E F dbName ver currentStore
       \<lparr>validates = True, mode = readwrite, request = ClearRequest,
        request_onsuccess = None,
        request_onerror = None,
        transaction_oncomplete = Some (\<lambda>p. resolve Undefined p)\<rparr>"

section \<open>The hooks (indexed-hooks.ts)\<close>

text \<open>The configuration of the module: \<open>{ version: null, name: null }\<close> at first. The
  module is strict code, so an assignment to a property of the frozen object throws a
  \<open>TypeError\<close>.\<close>

record indexeddbConfiguration =
  config_version :: "int option"
  config_name :: "string option"
  frozen :: bool

definition initial_configuration :: indexeddbConfiguration where
  "initial_configuration = \<lparr>config_version = None, config_name = None, frozen = False\<rparr>"

text \<open>\<open>initDB\<close>: the two assignments and the freeze, then \<open>CreateObjectStore\<close>. The result
  is the configuration afterwards and what the initialization did.\<close>

definition initDB ::
  "indexeddbConfiguration \<Rightarrow> (string \<Rightarrow> ('k, 'v) IDBDatabase) \<Rightarrow> string \<Rightarrow> int \<Rightarrow>
   ObjectStoreMeta list \<Rightarrow> ('k, 'v) IDBMigration list option \<Rightarrow>
   indexeddbConfiguration \<times> ('k, 'v) initialization" where
  "initDB cfg F nm ver objectStoresMeta migrations =
     (if frozen cfg then
        (cfg, \<lparr>returned = Rejected (Thrown (TypeError ''Cannot assign to read only property'')),
               aborted = False, invoked = [], factory = F\<rparr>)
      else
        (cfg\<lparr>config_name := Some nm, config_version := Some ver, frozen := True\<rparr>,
         CreateObjectStore F nm ver objectStoresMeta migrations))"

text \<open>\<open>useIndexedDB\<close>: the error of the guard, or the three values the operations of
  \<open>DBOperations\<close> are bound to. A name is falsy when it is null or empty, a version when
  it is null or zero.\<close>

definition useIndexedDB ::
  "indexeddbConfiguration \<Rightarrow> string \<Rightarrow> js_error + (string \<times> int \<times> string)" where
  "useIndexedDB cfg objectStore =
     (case (config_name cfg, config_version cfg) of
        (Some nm, Some ver) \<Rightarrow>
          if nm = [] \<or> ver = 0 then Inl (Error ''Please, initialize the DB before the use.'')
          else Inr (nm, ver, objectStore)
      | _ \<Rightarrow> Inl (Error ''Please, initialize the DB before the use.''))"



section \<open>The default behaviour, as the specification words it\<close>

text \<open>The store that \<open>createObjectStore\<close> followed by one \<open>createIndex\<close> per declared
  index yields for a descriptor.\<close>

definition new_store :: "ObjectStoreMeta \<Rightarrow> ('k, 'v) IDBObjectStore" where
  "new_store m = \<lparr>storeName = store m, parameters = storeConfig m, indexes = storeSchema m, records = []\<rparr>"

text \<open>The declared stores that are not already present, in the order of the
  declarations; a name declared twice counts once, the first time.\<close>

fun missing :: "string list \<Rightarrow> ObjectStoreMeta list \<Rightarrow> ObjectStoreMeta list" where
  "missing present [] = []"
| "missing present (m # rest) =
     (if store m \<in> set present then missing present rest
      else m # missing (present @ [store m]) rest)"

section \<open>Example values\<close>

text \<open>A migration that delegates to the default behaviour (the example of the
  documentation of \<open>IndexedDBProps.migrations\<close>), one whose step reports failure, and
  one without a step.\<close>

definition delegating :: "int \<Rightarrow> (nat, string) IDBMigration" where
  "delegating v = \<lparr>toVersion = v, up = Some (\<lambda>db storeSchemas defaultBehaviour. defaultBehaviour db storeSchemas)\<rparr>"

definition failing :: "int \<Rightarrow> (nat, string) IDBMigration" where
  "failing v = \<lparr>toVersion = v, up = Some (\<lambda>db storeSchemas defaultBehaviour. (Inr False, db))\<rparr>"

definition unimplemented :: "int \<Rightarrow> (nat, string) IDBMigration" where
  "unimplemented v = \<lparr>toVersion = v, up = None\<rparr>"

definition people :: ObjectStoreMeta where
  "people = \<lparr>store = ''people'', storeConfig = \<lparr>keyPath = ''id'', autoIncrement = True\<rparr>,
     storeSchema = [\<lparr>name = ''name'', keypath = ''name'', unique = False\<rparr>,
                    \<lparr>name = ''email'', keypath = ''email'', unique = True\<rparr>]\<rparr>"

text \<open>An engine that stores a value under the key passed with it and refuses a write
  without one. A
  database at version 1 with one store of two records. A cursor callback that notes
  what it is given and always advances. An upgrade callback that uses its second
  argument as the database handle.\<close>

definition given_keys :: "(nat, string) engine" where
  "given_keys =
     \<lparr>assign = (\<lambda>s v key. case key of None \<Rightarrow> Refuse (DOMException ''DataError'') | Some k \<Rightarrow> Accept k v),
      index_key = (\<lambda>i v. None)\<rparr>"

definition people_store :: "(nat, string) IDBObjectStore" where
  "people_store =
     \<lparr>storeName = ''people'', parameters = \<lparr>keyPath = '''', autoIncrement = False\<rparr>,
      indexes = [], records = [(1, ''Ann''), (2, ''Bob'')]\<rparr>"

definition people_db :: "string \<Rightarrow> (nat, string) IDBDatabase" where
  "people_db = fresh(''db'' := \<lparr>version = 1, objectStores = [people_store]\<rparr>)"

definition visiting :: "(nat, string) js_value \<Rightarrow> (nat, string) js_value list \<Rightarrow> (nat, string) js_value list \<times> bool" where
  "visiting c seen = (seen @ [c], True)"

definition creating ::
  "IDBVersionChangeEvent \<Rightarrow> (nat, string) IDBDatabase option \<Rightarrow> (nat, string) IDBDatabase \<Rightarrow>
   js_error + (nat, string) IDBDatabase" where
  "creating event db handle =
     (case db of
        None \<Rightarrow> Inl (TypeError ''Cannot read properties of undefined'')
      | Some d \<Rightarrow> createObjectStore ''people'' \<lparr>keyPath = ''id'', autoIncrement = True\<rparr> d)"

section \<open>Properties of the migration sequencer\<close>

lemma find_indexed_Some:
  "find_indexed P xs = Some (i, x) \<Longrightarrow> i < length xs \<and> xs ! i = x \<and> P x \<and> (\<forall>j<i. \<not> P (xs ! j))"
proof (induction xs arbitrary: i)
  case Nil
  then show ?case by simp
next
  case (Cons a xs)
  show ?case
  proof (cases "P a")
    case True
    with Cons.prems show ?thesis by simp
  next
    case False
    with Cons.prems obtain i' where f: "find_indexed P xs = Some (i', x)" and i: "i = Suc i'"
      by auto
    from Cons.IH [OF f] have ih: "i' < length xs" "xs ! i' = x" "P x" "\<forall>j<i'. \<not> P (xs ! j)"
      by simp_all
    have "\<forall>j<i. \<not> P ((a # xs) ! j)"
    proof (intro allI impI)
      fix j assume "j < i"
      then show "\<not> P ((a # xs) ! j)" using False ih(4) i by (cases j) auto
    qed
    with ih i show ?thesis by simp
  qed
qed

lemma find_indexed_None: "(find_indexed P xs = None) = (\<forall>x\<in>set xs. \<not> P x)"
  by (induction xs) auto

lemma migrate_trace:
  "migrate v nv db sch ms inv0 = (r, d, inv1) \<Longrightarrow>
   \<exists>new k. inv1 = inv0 @ new \<and> k \<le> max (v - 1) nv \<and>
     map (\<lambda>i. toVersion (ms ! i)) new = [v..k] \<and>
     (r = None \<longrightarrow> k = nv \<or> nv < v) \<and>
     (\<forall>i\<in>set new. i < length ms \<and> (\<forall>j<i. toVersion (ms ! j) \<noteq> toVersion (ms ! i)))"
proof (induction v nv db sch ms inv0 rule: migrate.induct)
  case (1 nextVersion newV database storeSchemas migrations invoked)
  note unf = "1.prems" [unfolded migrate.simps [of nextVersion newV database storeSchemas migrations invoked]]
  show ?case
  proof (cases "nextVersion < newV + 1")
    case False
    with unf have "inv1 = invoked" "r = None" by auto
    with False show ?thesis by (intro exI [of _ "[]"] exI [of _ "nextVersion - 1"]) auto
  next
    case True
    note inrange = this
    show ?thesis
    proof (cases "find_indexed (\<lambda>x. toVersion x = nextVersion) migrations")
      case None
      with unf inrange have "inv1 = invoked" "r \<noteq> None" by auto
      then show ?thesis by (intro exI [of _ "[]"] exI [of _ "nextVersion - 1"]) auto
    next
      case (Some p)
      obtain i m where p: "p = (i, m)" by (cases p)
      from find_indexed_Some [OF Some [unfolded p]]
      have fi: "i < length migrations" "migrations ! i = m" "toVersion m = nextVersion"
        "\<forall>j<i. toVersion (migrations ! j) \<noteq> nextVersion" by simp_all
      have one: "map (\<lambda>i. toVersion (migrations ! i)) [i] = [nextVersion..nextVersion]"
        using fi by simp
      have first: "\<forall>i'\<in>set [i]. i' < length migrations \<and>
          (\<forall>j<i'. toVersion (migrations ! j) \<noteq> toVersion (migrations ! i'))"
        using fi by simp
      show ?thesis
      proof (cases "up m")
        case None
        with unf inrange \<open>find_indexed _ _ = Some p\<close> p have "inv1 = invoked" "r \<noteq> None" by auto
        then show ?thesis by (intro exI [of _ "[]"] exI [of _ "nextVersion - 1"]) auto
      next
        case (Some f)
        note upf = this
        obtain res d' where call: "f database storeSchemas defaultMigrationBehaviour = (res, d')"
          by (cases "f database storeSchemas defaultMigrationBehaviour")
        show ?thesis
        proof (cases "res = Inr True")
          case False
          with unf inrange \<open>find_indexed _ _ = Some p\<close> p upf call
          have "inv1 = invoked @ [i]" "r \<noteq> None"
            by (cases res; auto)+
          with one first inrange show ?thesis
            by (intro exI [of _ "[i]"] exI [of _ "nextVersion"]) auto
        next
          case True
          with unf inrange \<open>find_indexed _ _ = Some p\<close> p upf call
          have rec: "migrate (nextVersion + 1) newV d' storeSchemas migrations (invoked @ [i]) = (r, d, inv1)"
            by simp
          have nn: "\<not> \<not> True" by simp
          from "1.IH" [OF inrange \<open>find_indexed _ _ = Some p\<close> p [symmetric] upf call [symmetric] True nn rec]
          obtain new k where ih: "inv1 = (invoked @ [i]) @ new" "k \<le> max (nextVersion + 1 - 1) newV"
            "map (\<lambda>i. toVersion (migrations ! i)) new = [nextVersion + 1..k]"
            "r = None \<longrightarrow> k = newV \<or> newV < nextVersion + 1"
            "\<forall>i\<in>set new. i < length migrations \<and> (\<forall>j<i. toVersion (migrations ! j) \<noteq> toVersion (migrations ! i))"
            by auto
          from ih(3) have kge: "nextVersion \<le> k \<or> new = []"
            by (cases "nextVersion + 1 \<le> k") auto
          have "map (\<lambda>i. toVersion (migrations ! i)) ([i] @ new) = [nextVersion..max nextVersion k]"
            using ih(3) fi by (cases "nextVersion + 1 \<le> k") (auto simp: upto_rec1 [of nextVersion] max_def)
          moreover have "max nextVersion k \<le> max (nextVersion - 1) newV"
            using ih(2) inrange by (auto simp: max_def)
          moreover have "r = None \<longrightarrow> max nextVersion k = newV \<or> newV < nextVersion"
            using ih(2) ih(4) inrange by (auto simp: max_def)
          moreover have "\<forall>i\<in>set ([i] @ new). i < length migrations \<and> (\<forall>j<i. toVersion (migrations ! j) \<noteq> toVersion (migrations ! i))"
            using ih(5) fi by auto
          moreover have "inv1 = invoked @ ([i] @ new)" using ih(1) by simp
          ultimately show ?thesis by blast
        qed
      qed
    qed
  qed
qed

lemma migrate_split:
  "v \<le> w + 1 \<Longrightarrow> w \<le> nv \<Longrightarrow>
   migrate v nv db sch ms inv0 =
     (case migrate v w db sch ms inv0 of
        (None, d, inv1) \<Rightarrow> migrate (w + 1) nv d sch ms inv1
      | (Some e, d, inv1) \<Rightarrow> (Some e, d, inv1))"
proof (induction v w db sch ms inv0 rule: migrate.induct)
  case (1 nextVersion newV database storeSchemas migrations invoked)
  show ?case
  proof (cases "nextVersion < newV + 1")
    case False
    with "1.prems" have "nextVersion = newV + 1" by simp
    then show ?thesis
      by (simp add: migrate.simps [of "newV + 1" newV])
  next
    case True
    note inrange = this
    with "1.prems" have big: "nextVersion < nv + 1" by simp
    show ?thesis
    proof (cases "find_indexed (\<lambda>x. toVersion x = nextVersion) migrations")
      case None
      with inrange big show ?thesis
        by (simp add: migrate.simps [of nextVersion])
    next
      case (Some p)
      note found = this
      obtain i m where p: "p = (i, m)" by (cases p)
      show ?thesis
      proof (cases "up m")
        case None
        with inrange big found p show ?thesis
          by (simp add: migrate.simps [of nextVersion])
      next
        case (Some f)
        note upf = this
        obtain res d' where call: "f database storeSchemas defaultMigrationBehaviour = (res, d')"
          by (cases "f database storeSchemas defaultMigrationBehaviour")
        show ?thesis
        proof (cases "res = Inr True")
          case False
          with inrange big found p upf call show ?thesis
            by (cases res) (auto simp add: migrate.simps [of nextVersion])
        next
          case True
          have nn: "\<not> \<not> True" by simp
          have le: "nextVersion + 1 \<le> newV + 1" using inrange by simp
          note ih = "1.IH" [OF inrange found p [symmetric] upf call [symmetric] True nn le "1.prems"(2)]
          have l: "migrate nextVersion nv database storeSchemas migrations invoked =
                migrate (nextVersion + 1) nv d' storeSchemas migrations (invoked @ [i])"
            using big found p upf call True by (simp add: migrate.simps [of nextVersion])
          have r: "migrate nextVersion newV database storeSchemas migrations invoked =
                migrate (nextVersion + 1) newV d' storeSchemas migrations (invoked @ [i])"
            using inrange found p upf call True by (simp add: migrate.simps [of nextVersion])
          show ?thesis unfolding l r by (rule ih)
        qed
      qed
    qed
  qed
qed

lemma migrate_versions:
  assumes "migrate v nv db sch ms [] = (r, d, called)"
  shows "(\<exists>k\<le>max (v - 1) nv. map (\<lambda>i. toVersion (ms ! i)) called = [v..k])"
    and "r = None \<Longrightarrow> map (\<lambda>i. toVersion (ms ! i)) called = [v..nv]"
    and "\<forall>i\<in>set called. i < length ms \<and> (\<forall>j<i. toVersion (ms ! j) \<noteq> toVersion (ms ! i))"
proof -
  from migrate_trace [OF assms] obtain k where
    k: "k \<le> max (v - 1) nv" and m: "map (\<lambda>i. toVersion (ms ! i)) called = [v..k]"
    and n: "r = None \<longrightarrow> k = nv \<or> nv < v"
    and f: "\<forall>i\<in>set called. i < length ms \<and> (\<forall>j<i. toVersion (ms ! j) \<noteq> toVersion (ms ! i))"
    by auto
  from k m show "\<exists>k\<le>max (v - 1) nv. map (\<lambda>i. toVersion (ms ! i)) called = [v..k]" by blast
  from f show "\<forall>i\<in>set called. i < length ms \<and> (\<forall>j<i. toVersion (ms ! j) \<noteq> toVersion (ms ! i))" .
  show "map (\<lambda>i. toVersion (ms ! i)) called = [v..nv]" if "r = None"
  proof (cases "nv < v")
    case True
    with k have "k < v" by simp
    with m True show ?thesis by simp
  next
    case False
    with n that have "k = nv" by simp
    with m show ?thesis by simp
  qed
qed

lemma CreateObjectStore_upgrade:
  "1 \<le> ver \<Longrightarrow> version (F dbName) < ver \<Longrightarrow>
   CreateObjectStore F dbName ver sch (Some ms) =
     (case migrate (version (F dbName) + 1) ver ((F dbName)\<lparr>version := ver\<rparr>) sch ms [] of
        (None, d, called) \<Rightarrow>
          \<lparr>returned = Resolved (), aborted = False, invoked = called, factory = F(dbName := d)\<rparr>
      | (Some e, d, called) \<Rightarrow>
          \<lparr>returned = Rejected (Thrown e), aborted = True, invoked = called, factory = F\<rparr>)"
  by (simp add: CreateObjectStore_def idb_open_def applyMigrations_def resolve_def reject_def
      split: prod.splits option.splits)

lemma CreateObjectStore_no_upgrade:
  "\<not> (1 \<le> ver \<and> version (F dbName) < ver) \<Longrightarrow>
   CreateObjectStore F dbName ver sch migs =
     \<lparr>returned = (if ver < 1 then Rejected (Thrown (TypeError ''version''))
                  else if ver < version (F dbName) then Rejected (ErrorEvent ''VersionError'')
                  else Resolved ()),
      aborted = False, invoked = [], factory = F\<rparr>"
  by (auto simp add: CreateObjectStore_def idb_open_def resolve_def reject_def)

lemma migrate_missing:
  "v \<le> nv \<Longrightarrow> find_indexed (\<lambda>x. toVersion x = v) ms = None \<Longrightarrow>
   migrate v nv d sch ms called =
     (Some (Error (''Db configuration should contain a migration for version '' @ show_int v)), d, called)"
  by (simp add: migrate.simps [of v])

lemma migrate_no_up:
  "v \<le> nv \<Longrightarrow> find_indexed (\<lambda>x. toVersion x = v) ms = Some (i, m) \<Longrightarrow> up m = None \<Longrightarrow>
   migrate v nv d sch ms called =
     (Some (Error (''Up callback hasn't been implemented for migration with version '' @ show_int v)), d, called)"
  by (simp add: migrate.simps [of v])

lemma migrate_up_false:
  "v \<le> nv \<Longrightarrow> find_indexed (\<lambda>x. toVersion x = v) ms = Some (i, m) \<Longrightarrow> up m = Some f \<Longrightarrow>
   f d sch defaultMigrationBehaviour = (Inr False, d') \<Longrightarrow>
   migrate v nv d sch ms called =
     (Some (Error (''Migration for version '' @ show_int v @ '' has failed'')), d', called @ [i])"
  by (simp add: migrate.simps [of v])




text \<open>
  C2. In an upgrade with a migration list, let \<open>v\<close> be a required version. If no
  migration targets \<open>v\<close>, or the one found has no \<open>up\<close>, initialization rejects with a
  thrown error, the upgrade transaction is aborted (the databases are as before) and no
  migration for \<open>v\<close> or a later version was invoked. When the steps for the versions
  before \<open>v\<close> succeeded, the rejection is the error that names \<open>v\<close>: the missing
  migration, the missing \<open>up\<close>, or the \<open>up\<close> call that returned false; in the last
  case the call for \<open>v\<close> is the last one made.
\<close>

theorem upgrade_failure_rejects:
  fixes F :: "string \<Rightarrow> ('k, 'v) IDBDatabase" and dbName :: string and ver :: int
    and sch :: "ObjectStoreMeta list" and ms :: "('k, 'v) IDBMigration list" and v :: int
  defines "out \<equiv> CreateObjectStore F dbName ver sch (Some ms)"
  assumes ver: "1 \<le> ver" and v: "version (F dbName) < v" "v \<le> ver"
  shows
   "(find_indexed (\<lambda>x. toVersion x = v) ms = None \<or>
       (\<exists>i m. find_indexed (\<lambda>x. toVersion x = v) ms = Some (i, m) \<and> up m = None) \<longrightarrow>
       (\<exists>e. returned out = Rejected (Thrown e)) \<and> aborted out \<and> factory out = F \<and>
       (\<forall>i\<in>set (invoked out). toVersion (ms ! i) < v))
    \<and> (\<forall>d called. migrate (version (F dbName) + 1) (v - 1) ((F dbName)\<lparr>version := ver\<rparr>) sch ms [] = (None, d, called) \<longrightarrow>
         (find_indexed (\<lambda>x. toVersion x = v) ms = None \<longrightarrow>
            returned out = Rejected (Thrown (Error
              (''Db configuration should contain a migration for version '' @ show_int v))) \<and>
            aborted out \<and> factory out = F \<and> invoked out = called)
       \<and> (\<forall>i m. find_indexed (\<lambda>x. toVersion x = v) ms = Some (i, m) \<and> up m = None \<longrightarrow>
            returned out = Rejected (Thrown (Error
              (''Up callback hasn't been implemented for migration with version '' @ show_int v))) \<and>
            aborted out \<and> factory out = F \<and> invoked out = called)
       \<and> (\<forall>i m f d'. find_indexed (\<lambda>x. toVersion x = v) ms = Some (i, m) \<and> up m = Some f \<and>
              f d sch defaultMigrationBehaviour = (Inr False, d') \<longrightarrow>
            returned out = Rejected (Thrown (Error
              (''Migration for version '' @ show_int v @ '' has failed''))) \<and>
            aborted out \<and> factory out = F \<and> invoked out = called @ [i] \<and>
            (\<forall>j\<in>set (invoked out). toVersion (ms ! j) \<le> v)))"
proof -
  let ?old = "version (F dbName)"
  let ?h = "(F dbName)\<lparr>version := ver\<rparr>"
  let ?tv = "\<lambda>i. toVersion (ms ! i)"
  from ver v have up: "1 \<le> ver" "?old < ver" by simp_all
  have out: "out = (case migrate (?old + 1) ver ?h sch ms [] of
        (None, d, called) \<Rightarrow>
          \<lparr>returned = Resolved (), aborted = False, invoked = called, factory = F(dbName := d)\<rparr>
      | (Some e, d, called) \<Rightarrow>
          \<lparr>returned = Rejected (Thrown e), aborted = True, invoked = called, factory = F\<rparr>)"
    unfolding out_def using up by (rule CreateObjectStore_upgrade [where F = F and dbName = dbName])
  have split: "migrate (?old + 1) ver ?h sch ms [] =
     (case migrate (?old + 1) (v - 1) ?h sch ms [] of
        (None, d, inv1) \<Rightarrow> migrate (v - 1 + 1) ver d sch ms inv1
      | (Some e, d, inv1) \<Rightarrow> (Some e, d, inv1))"
    using v by (intro migrate_split) simp_all
  obtain r d0 c0 where pre: "migrate (?old + 1) (v - 1) ?h sch ms [] = (r, d0, c0)"
    by (cases "migrate (?old + 1) (v - 1) ?h sch ms []")
  from migrate_versions(1) [OF pre] obtain k where k: "k \<le> max ?old (v - 1)" "map ?tv c0 = [?old + 1..k]"
    by auto
  have below: "\<forall>i\<in>set c0. toVersion (ms ! i) < v"
  proof
    fix i assume "i \<in> set c0"
    then have "?tv i \<in> set (map ?tv c0)" by simp
    then have "?tv i \<le> k" unfolding k(2) by simp
    with k(1) v show "toVersion (ms ! i) < v" by simp
  qed
  have structural: "(\<exists>e. returned out = Rejected (Thrown e)) \<and> aborted out \<and> factory out = F \<and>
       (\<forall>i\<in>set (invoked out). toVersion (ms ! i) < v)"
    if "find_indexed (\<lambda>x. toVersion x = v) ms = None \<or>
       (\<exists>i m. find_indexed (\<lambda>x. toVersion x = v) ms = Some (i, m) \<and> up m = None)"
  proof (cases r)
    case (Some e)
    with pre split out below show ?thesis by simp
  next
    case None
    from that v(2) have "\<exists>e. migrate v ver d0 sch ms c0 = (Some e, d0, c0)"
      by (auto simp: migrate_missing migrate_no_up)
    with None pre split out below show ?thesis by auto
  qed
  have exact: "(find_indexed (\<lambda>x. toVersion x = v) ms = None \<longrightarrow>
            returned out = Rejected (Thrown (Error
              (''Db configuration should contain a migration for version '' @ show_int v))) \<and>
            aborted out \<and> factory out = F \<and> invoked out = called)
       \<and> (\<forall>i m. find_indexed (\<lambda>x. toVersion x = v) ms = Some (i, m) \<and> up m = None \<longrightarrow>
            returned out = Rejected (Thrown (Error
              (''Up callback hasn't been implemented for migration with version '' @ show_int v))) \<and>
            aborted out \<and> factory out = F \<and> invoked out = called)
       \<and> (\<forall>i m f d'. find_indexed (\<lambda>x. toVersion x = v) ms = Some (i, m) \<and> up m = Some f \<and>
              f d sch defaultMigrationBehaviour = (Inr False, d') \<longrightarrow>
            returned out = Rejected (Thrown (Error
              (''Migration for version '' @ show_int v @ '' has failed''))) \<and>
            aborted out \<and> factory out = F \<and> invoked out = called @ [i] \<and>
            (\<forall>j\<in>set (invoked out). toVersion (ms ! j) \<le> v))"
    if reach: "migrate (?old + 1) (v - 1) ?h sch ms [] = (None, d, called)" for d called
  proof -
    from reach pre have eq: "r = None" "d0 = d" "c0 = called" by simp_all
    from reach split have run: "migrate (?old + 1) ver ?h sch ms [] = migrate v ver d sch ms called"
      by simp
    have a: "returned out = Rejected (Thrown (Error
              (''Db configuration should contain a migration for version '' @ show_int v))) \<and>
            aborted out \<and> factory out = F \<and> invoked out = called"
      if "find_indexed (\<lambda>x. toVersion x = v) ms = None"
      using that v(2) by (simp add: out run migrate_missing)
    have b: "returned out = Rejected (Thrown (Error
              (''Up callback hasn't been implemented for migration with version '' @ show_int v))) \<and>
            aborted out \<and> factory out = F \<and> invoked out = called"
      if "find_indexed (\<lambda>x. toVersion x = v) ms = Some (i, m) \<and> up m = None" for i m
      using that v(2) by (simp add: out run migrate_no_up [of v ver ms i m])
    have c: "returned out = Rejected (Thrown (Error
              (''Migration for version '' @ show_int v @ '' has failed''))) \<and>
            aborted out \<and> factory out = F \<and> invoked out = called @ [i] \<and>
            (\<forall>j\<in>set (invoked out). toVersion (ms ! j) \<le> v)"
      if h: "find_indexed (\<lambda>x. toVersion x = v) ms = Some (i, m) \<and> up m = Some f \<and>
              f d sch defaultMigrationBehaviour = (Inr False, d')" for i m f d'
    proof -
      from h have fi: "find_indexed (\<lambda>x. toVersion x = v) ms = Some (i, m)" by simp
      from find_indexed_Some [OF fi] have "toVersion (ms ! i) = v" by simp
      moreover from below eq have "\<forall>j\<in>set called. toVersion (ms ! j) < v" by simp
      ultimately have "\<forall>j\<in>set (called @ [i]). toVersion (ms ! j) \<le> v" by auto
      moreover from h v(2) have "migrate v ver d sch ms called =
        (Some (Error (''Migration for version '' @ show_int v @ '' has failed'')), d', called @ [i])"
        by (intro migrate_up_false [of v ver ms i m f]) simp_all
      ultimately show ?thesis by (simp add: out run)
    qed
    from a b c show ?thesis by blast
  qed
  from structural exact show ?thesis by blast
qed

theorem upgrade_failure_rejects_witness:
  "returned (CreateObjectStore fresh ''db'' 2 [] (Some [delegating 1])) =
     Rejected (Thrown (Error ''Db configuration should contain a migration for version 2''))
   \<and> aborted (CreateObjectStore fresh ''db'' 2 [] (Some [delegating 1]))
   \<and> invoked (CreateObjectStore fresh ''db'' 2 [] (Some [delegating 1])) = [0]
   \<and> returned (CreateObjectStore fresh ''db'' 2 [] (Some [unimplemented 1, delegating 2])) =
     Rejected (Thrown (Error ''Up callback hasn't been implemented for migration with version 1''))
   \<and> invoked (CreateObjectStore fresh ''db'' 2 [] (Some [unimplemented 1, delegating 2])) = []
   \<and> returned (CreateObjectStore fresh ''db'' 2 [] (Some [failing 1, delegating 2])) =
     Rejected (Thrown (Error ''Migration for version 1 has failed''))
   \<and> aborted (CreateObjectStore fresh ''db'' 2 [] (Some [failing 1, delegating 2]))
   \<and> factory (CreateObjectStore fresh ''db'' 2 [] (Some [failing 1, delegating 2])) = fresh
   \<and> invoked (CreateObjectStore fresh ''db'' 2 [] (Some [failing 1, delegating 2])) = [0]"
proof -
  let ?F = "fresh :: string \<Rightarrow> (nat, string) IDBDatabase"
  let ?h = "(?F ''db'')\<lparr>version := 2\<rparr>"
  have old: "version (?F ''db'') = 0" by (simp add: fresh_def)
  have h1: "(1::int) \<le> 2" "version (?F ''db'') < 2" "(2::int) \<le> 2" "version (?F ''db'') < 1" "(1::int) \<le> 2"
    by (simp_all add: old)
  have p2: "migrate (version (?F ''db'') + 1) (2 - 1) ?h [] [delegating 1] [] = (None, ?h, [0])"
    by (simp add: old migrate.simps delegating_def defaultMigrationBehaviour_def)
  have f2: "find_indexed (\<lambda>x. toVersion x = 2) [delegating 1] = None"
    by (simp add: delegating_def)
  note a = upgrade_failure_rejects [where F = ?F and dbName = "''db''" and ver = 2 and v = 2
      and sch = "[]" and ms = "[delegating 1]", OF h1(1) h1(2) h1(3), THEN conjunct2, rule_format, OF p2,
      THEN conjunct1, rule_format, OF f2]
  have p1: "migrate (version (?F ''db'') + 1) (1 - 1) ?h [] ms [] = (None, ?h, [])" for ms
    by (simp add: old migrate.simps)
  have fb: "find_indexed (\<lambda>x. toVersion x = 1) [unimplemented 1, delegating 2] = Some (0, unimplemented 1)
      \<and> up (unimplemented 1 :: (nat, string) IDBMigration) = None"
    by (simp add: unimplemented_def)
  note b = upgrade_failure_rejects [where F = ?F and dbName = "''db''" and ver = 2 and v = 1
      and sch = "[]" and ms = "[unimplemented 1, delegating 2]", OF h1(1) h1(4) h1(5), THEN conjunct2, rule_format, OF p1,
      THEN conjunct2, THEN conjunct1, rule_format, OF fb]
  have fc: "find_indexed (\<lambda>x. toVersion x = 1) [failing 1, delegating 2] = Some (0, failing 1)
      \<and> up (failing 1) = Some (\<lambda>db storeSchemas defaultBehaviour. (Inr False, db))
      \<and> (\<lambda>db storeSchemas defaultBehaviour. (Inr False, db)) ?h [] defaultMigrationBehaviour = (Inr False, ?h)"
    by (simp add: failing_def)
  note c = upgrade_failure_rejects [where F = ?F and dbName = "''db''" and ver = 2 and v = 1
      and sch = "[]" and ms = "[failing 1, delegating 2]", OF h1(1) h1(4) h1(5), THEN conjunct2, rule_format, OF p1,
      THEN conjunct2, THEN conjunct2, rule_format, OF fc]
  from a b c show ?thesis by (simp add: show_int_def)
qed

section \<open>Properties of the default behaviour\<close>

lemma find_last: "n \<notin> set (map storeName ss) \<Longrightarrow> storeName x = n \<Longrightarrow>
  find (\<lambda>s. storeName s = n) (ss @ [x]) = Some x"
  by (induction ss) auto

lemma map_other: "n \<notin> set (map storeName ss) \<Longrightarrow>
  map (\<lambda>s. if storeName s = n then f s else s) ss = ss"
  by (induction ss) auto

lemma createIndex_new:
  assumes "n \<notin> set (map storeName ss)" and "name idx \<notin> set (map name I)"
  shows "createIndex n idx (d\<lparr>objectStores := ss @ [\<lparr>storeName = n, parameters = c, indexes = I, records = rs\<rparr>]\<rparr>)
    = Inr (d\<lparr>objectStores := ss @ [\<lparr>storeName = n, parameters = c, indexes = I @ [idx], records = rs\<rparr>]\<rparr>)"
  using assms by (simp add: createIndex_def find_last map_other)

lemma createIndexes_new:
  "n \<notin> set (map storeName ss) \<Longrightarrow> distinct (map name (I @ idxs)) \<Longrightarrow>
   createIndexes n idxs (d\<lparr>objectStores := ss @ [\<lparr>storeName = n, parameters = c, indexes = I, records = rs\<rparr>]\<rparr>)
    = (None, d\<lparr>objectStores := ss @ [\<lparr>storeName = n, parameters = c, indexes = I @ idxs, records = rs\<rparr>]\<rparr>)"
proof (induction idxs arbitrary: I)
  case Nil
  then show ?case by simp
next
  case (Cons idx idxs)
  from Cons.prems have fresh: "name idx \<notin> set (map name I)" and d: "distinct (map name ((I @ [idx]) @ idxs))"
    by auto
  show ?case
    by (simp add: createIndex_new [OF Cons.prems(1) fresh] Cons.IH [OF Cons.prems(1) d])
qed

lemma createStores_missing:
  "\<forall>m\<in>set ms. distinct (map name (storeSchema m)) \<Longrightarrow>
   createStores ms d =
     (None, d\<lparr>objectStores := objectStores d @ map new_store (missing (objectStoreNames d) ms)\<rparr>)"
proof (induction ms arbitrary: d)
  case Nil
  then show ?case by simp
next
  case (Cons m ms)
  from Cons.prems have rest: "\<forall>m\<in>set ms. distinct (map name (storeSchema m))"
    and dm: "distinct (map name ([] @ storeSchema m))" by simp_all
  show ?case
  proof (cases "store m \<in> set (objectStoreNames d)")
    case True
    then show ?thesis by (simp add: contains_def Cons.IH [OF rest])
  next
    case False
    then have n: "store m \<notin> set (map storeName (objectStores d))"
      by (simp add: objectStoreNames_def)
    let ?d2 = "d\<lparr>objectStores := objectStores d @ [new_store m]\<rparr>"
    have names: "objectStoreNames ?d2 = objectStoreNames d @ [store m]"
      by (simp add: objectStoreNames_def new_store_def)
    have "createStores (m # ms) d = createStores ms ?d2"
      using False createIndexes_new [where d = d and c = "storeConfig m" and rs = "[]", OF n dm]
      by (simp add: contains_def createObjectStore_def new_store_def)
    also have "\<dots> = (None, ?d2\<lparr>objectStores := objectStores ?d2 @ map new_store (missing (objectStoreNames ?d2) ms)\<rparr>)"
      by (rule Cons.IH [OF rest])
    finally show ?thesis using False by (simp add: names)
  qed
qed

lemma missing_subset: "set (missing present ms) \<subseteq> set ms"
  by (induction ms arbitrary: present) auto

lemma missing_names:
  "set (map store (missing present ms)) = set (map store ms) - set present"
  by (induction ms arbitrary: present) auto

lemma missing_distinct:
  "distinct (map store (missing present ms))"
proof (induction ms arbitrary: present)
  case Nil
  then show ?case by simp
next
  case (Cons m ms)
  have "store m \<notin> set (map store (missing (present @ [store m]) ms))"
    unfolding missing_names by simp
  with Cons show ?case by simp
qed

lemma missing_none: "set (map store ms) \<subseteq> set present \<Longrightarrow> missing present ms = []"
  by (induction ms) auto

text \<open>
  C3. Without a migration list, and with descriptors whose index names are distinct
  within each store, the default behaviour returns true and leaves the database with
  the stores it had, unchanged and first, followed by one new store for each declared
  name that was not present, with the declared key configuration and every declared
  index. The store names stay distinct, running the behaviour again changes nothing,
  and initializing again at the same version raises no upgrade and changes nothing.
\<close>

theorem default_behaviour_creates_missing_stores:
  fixes d :: "('k, 'v) IDBDatabase" and storeSchemas :: "ObjectStoreMeta list"
    and F :: "string \<Rightarrow> ('k, 'v) IDBDatabase" and dbName :: string and ver :: int
  defines "d' \<equiv> d\<lparr>objectStores := objectStores d @ map new_store (missing (objectStoreNames d) storeSchemas)\<rparr>"
  assumes valid: "\<forall>m\<in>set storeSchemas. distinct (map name (storeSchema m))"
  shows "defaultMigrationBehaviour d storeSchemas = (Inr True, d')
    \<and> set (objectStoreNames d') = set (objectStoreNames d) \<union> set (map store storeSchemas)
    \<and> (distinct (objectStoreNames d) \<longrightarrow> distinct (objectStoreNames d'))
    \<and> take (length (objectStores d)) (objectStores d') = objectStores d
    \<and> (\<forall>s\<in>set (drop (length (objectStores d)) (objectStores d')).
          storeName s \<notin> set (objectStoreNames d) \<and>
          (\<exists>m\<in>set storeSchemas. storeName s = store m \<and> parameters s = storeConfig m \<and>
             indexes s = storeSchema m \<and> records s = []))
    \<and> defaultMigrationBehaviour d' storeSchemas = (Inr True, d')
    \<and> (1 \<le> ver \<and> version (F dbName) < ver \<and> d = (F dbName)\<lparr>version := ver\<rparr> \<longrightarrow>
         CreateObjectStore F dbName ver storeSchemas None =
           \<lparr>returned = Resolved (), aborted = False, invoked = [], factory = F(dbName := d')\<rparr>
         \<and> CreateObjectStore (F(dbName := d')) dbName ver storeSchemas None =
           \<lparr>returned = Resolved (), aborted = False, invoked = [], factory = F(dbName := d')\<rparr>)"
proof -
  let ?new = "missing (objectStoreNames d) storeSchemas"
  have run: "defaultMigrationBehaviour d storeSchemas = (Inr True, d')"
    unfolding d'_def by (simp add: defaultMigrationBehaviour_def createStores_missing [OF valid])
  have names: "objectStoreNames d' = objectStoreNames d @ map store ?new"
    by (simp add: d'_def objectStoreNames_def new_store_def comp_def)
  have all: "set (objectStoreNames d') = set (objectStoreNames d) \<union> set (map store storeSchemas)"
    unfolding names using missing_names [of "objectStoreNames d" storeSchemas] by auto
  have dist: "distinct (objectStoreNames d')" if "distinct (objectStoreNames d)"
    unfolding names using that missing_distinct [of "objectStoreNames d" storeSchemas]
      missing_names [of "objectStoreNames d" storeSchemas] by auto
  have old: "take (length (objectStores d)) (objectStores d') = objectStores d"
    by (simp add: d'_def)
  have new: "\<forall>s\<in>set (drop (length (objectStores d)) (objectStores d')).
          storeName s \<notin> set (objectStoreNames d) \<and>
          (\<exists>m\<in>set storeSchemas. storeName s = store m \<and> parameters s = storeConfig m \<and>
             indexes s = storeSchema m \<and> records s = [])"
  proof
    fix s assume "s \<in> set (drop (length (objectStores d)) (objectStores d'))"
    then obtain m where m: "m \<in> set ?new" and s: "s = new_store m"
      by (auto simp: d'_def)
    from m have "store m \<in> set (map store ?new)" by simp
    then have "store m \<notin> set (objectStoreNames d)" unfolding missing_names by simp
    moreover from m have "m \<in> set storeSchemas" using missing_subset by blast
    ultimately show "storeName s \<notin> set (objectStoreNames d) \<and>
          (\<exists>m\<in>set storeSchemas. storeName s = store m \<and> parameters s = storeConfig m \<and>
             indexes s = storeSchema m \<and> records s = [])"
      unfolding s by (auto simp: new_store_def)
  qed
  have none: "missing (objectStoreNames d') storeSchemas = []"
    by (rule missing_none) (simp add: all)
  have again: "defaultMigrationBehaviour d' storeSchemas = (Inr True, d')"
    by (simp add: defaultMigrationBehaviour_def createStores_missing [OF valid] none)
  have init: "CreateObjectStore F dbName ver storeSchemas None =
           \<lparr>returned = Resolved (), aborted = False, invoked = [], factory = F(dbName := d')\<rparr>
         \<and> CreateObjectStore (F(dbName := d')) dbName ver storeSchemas None =
           \<lparr>returned = Resolved (), aborted = False, invoked = [], factory = F(dbName := d')\<rparr>"
    if h: "1 \<le> ver \<and> version (F dbName) < ver \<and> d = (F dbName)\<lparr>version := ver\<rparr>"
  proof
    from h run show "CreateObjectStore F dbName ver storeSchemas None =
           \<lparr>returned = Resolved (), aborted = False, invoked = [], factory = F(dbName := d')\<rparr>"
      by (simp add: CreateObjectStore_def idb_open_def resolve_def reject_def)
    from h have "version d' = ver" by (simp add: d'_def)
    with h show "CreateObjectStore (F(dbName := d')) dbName ver storeSchemas None =
           \<lparr>returned = Resolved (), aborted = False, invoked = [], factory = F(dbName := d')\<rparr>"
      by (simp add: CreateObjectStore_no_upgrade)
  qed
  from run all dist old new again init show ?thesis by blast
qed

theorem default_behaviour_creates_missing_stores_witness:
  "distinct (map name (storeSchema people))
   \<and> factory (CreateObjectStore (fresh :: string \<Rightarrow> (nat, string) IDBDatabase) ''db'' 1 [people, people] None) ''db'' =
      \<lparr>version = 1, objectStores = [\<lparr>storeName = ''people'',
          parameters = \<lparr>keyPath = ''id'', autoIncrement = True\<rparr>,
          indexes = [\<lparr>name = ''name'', keypath = ''name'', unique = False\<rparr>,
                    \<lparr>name = ''email'', keypath = ''email'', unique = True\<rparr>], records = []\<rparr>]\<rparr>
   \<and> returned (CreateObjectStore (fresh :: string \<Rightarrow> (nat, string) IDBDatabase) ''db'' 1 [people, people] None) = Resolved ()"
proof -
  let ?F = "fresh :: string \<Rightarrow> (nat, string) IDBDatabase"
  have v: "\<forall>m\<in>set [people, people]. distinct (map name (storeSchema m))"
    by (simp add: people_def)
  have h: "1 \<le> (1::int) \<and> version (?F ''db'') < 1 \<and> (?F ''db'')\<lparr>version := 1\<rparr> = (?F ''db'')\<lparr>version := 1\<rparr>"
    by (simp add: fresh_def)
  from default_behaviour_creates_missing_stores [where storeSchemas = "[people, people]"
      and d = "(?F ''db'')\<lparr>version := 1\<rparr>" and F = ?F and dbName = "''db''" and ver = 1, OF v] h
  have "CreateObjectStore ?F ''db'' 1 [people, people] None =
     \<lparr>returned = Resolved (), aborted = False, invoked = [],
      factory = ?F(''db'' := (?F ''db'')\<lparr>version := 1, objectStores := objectStores ((?F ''db'')\<lparr>version := 1\<rparr>) @
         map new_store (missing (objectStoreNames ((?F ''db'')\<lparr>version := 1\<rparr>)) [people, people])\<rparr>)\<rparr>"
    by simp
  then show ?thesis
    by (simp add: fresh_def objectStoreNames_def new_store_def people_def)
qed

section \<open>Properties of the operations\<close>

lemma openDatabase_plain:
  "1 \<le> ver \<Longrightarrow> version (F dbName) \<le> ver \<Longrightarrow>
   openDatabase F dbName ver None =
     \<lparr>opened = Resolved ((F dbName)\<lparr>version := ver\<rparr>), forwarded = [],
      opened_factory = F(dbName := (F dbName)\<lparr>version := ver\<rparr>)\<rparr>"
  by (cases "version (F dbName) = ver") (auto simp: openDatabase_def idb_open_def resolve_def)

lemma find_store_None:
  "(find (\<lambda>s. storeName s = n) (objectStores d) = None) = (\<not> contains (objectStoreNames d) n)"
  by (auto simp: find_None_iff contains_def objectStoreNames_def)

lemma transaction_missing:
  "\<not> contains (objectStoreNames d) n \<Longrightarrow> transaction d n m = Inl (DOMException ''NotFoundError'')"
  using find_store_None [of n d] by (simp add: transaction_def)

lemma names_version [simp]: "objectStoreNames (d\<lparr>version := ver\<rparr>) = objectStoreNames d"
  by (simp add: objectStoreNames_def)

lemma prepare_missing:
  assumes "1 \<le> ver" "version (F dbName) \<le> ver" "\<not> contains (objectStoreNames (F dbName)) currentStore"
  shows "prepare validating m F dbName ver currentStore =
     Inl \<lparr>returns = (if validating then Rejected (store_missing currentStore) else Pending),
          calls = [CallOpenDatabase] @ (if validating then [CallValidateBeforeTransaction] else []) @
                    [case m of readonly \<Rightarrow> CallCreateReadonlyTransaction
                               | readwrite \<Rightarrow> CallCreateReadwriteTransaction],
          uncaught = Some (DOMException ''NotFoundError''), transactions = [], timeline = [],
          databases = F(dbName := (F dbName)\<lparr>version := ver\<rparr>)\<rparr>"
  using assms
  by (cases m) (simp_all add: prepare_def openDatabase_plain validateBeforeTransaction_def
      createReadonlyTransaction_def createReadwriteTransaction_def transaction_missing reject_def)

lemma prepare_found:
  assumes "1 \<le> ver" "version (F dbName) \<le> ver"
    "find (\<lambda>s. storeName s = currentStore) (objectStores (F dbName)) = Some s"
  shows "prepare validating m F dbName ver currentStore =
     Inr (Pending,
          [CallOpenDatabase] @ (if validating then [CallValidateBeforeTransaction] else []) @
                    [case m of readonly \<Rightarrow> CallCreateReadonlyTransaction
                               | readwrite \<Rightarrow> CallCreateReadwriteTransaction],
          s, (F dbName)\<lparr>version := ver\<rparr>, F(dbName := (F dbName)\<lparr>version := ver\<rparr>))"
proof -
  from assms(3) have "contains (objectStoreNames (F dbName)) currentStore"
    using find_store_None [of currentStore "F dbName"] by simp
  with assms show ?thesis
    by (cases m) (simp_all add: prepare_def openDatabase_plain validateBeforeTransaction_def
      createReadonlyTransaction_def createReadwriteTransaction_def transaction_def)
qed

lemma prepare_closed:
  assumes "\<not> (1 \<le> ver \<and> version (F dbName) \<le> ver)"
  shows "prepare validating m F dbName ver currentStore =
     Inl \<lparr>returns = Pending, calls = [CallOpenDatabase], uncaught = None, transactions = [],
          timeline = [], databases = F\<rparr>"
  using assms by (auto simp: prepare_def openDatabase_def idb_open_def reject_def)

lemma perform_missing:
  assumes "1 \<le> ver" "version (F dbName) \<le> ver" "\<not> contains (objectStoreNames (F dbName)) currentStore"
  shows "perform E F dbName ver currentStore w =
     \<lparr>returns = (if validates w then Rejected (store_missing currentStore) else Pending),
          calls = [CallOpenDatabase] @ (if validates w then [CallValidateBeforeTransaction] else []) @
                    [case mode w of readonly \<Rightarrow> CallCreateReadonlyTransaction
                               | readwrite \<Rightarrow> CallCreateReadwriteTransaction],
          uncaught = Some (DOMException ''NotFoundError''), transactions = [], timeline = [],
          databases = F(dbName := (F dbName)\<lparr>version := ver\<rparr>)\<rparr>"
  using assms by (simp add: perform_def prepare_missing)

lemma calls_perform:
  "calls (perform E F dbName ver currentStore w) =
     (if 1 \<le> ver \<and> version (F dbName) \<le> ver then
        [CallOpenDatabase] @ (if validates w then [CallValidateBeforeTransaction] else []) @
          [case mode w of readonly \<Rightarrow> CallCreateReadonlyTransaction
                        | readwrite \<Rightarrow> CallCreateReadwriteTransaction]
      else [CallOpenDatabase])"
proof (cases "1 \<le> ver \<and> version (F dbName) \<le> ver")
  case False
  then show ?thesis by (simp add: perform_def prepare_closed)
next
  case True
  then have ok: "1 \<le> ver" "version (F dbName) \<le> ver" by simp_all
  show ?thesis
  proof (cases "find (\<lambda>s. storeName s = currentStore) (objectStores (F dbName))")
    case None
    then have "\<not> contains (objectStoreNames (F dbName)) currentStore"
      by (simp add: find_store_None)
    with ok show ?thesis by (simp add: perform_missing)
  next
    case (Some s)
    with ok show ?thesis
      by (simp add: perform_def prepare_found Let_def split: sum.splits prod.splits)
  qed
qed

lemma openCursor_missing:
  assumes "1 \<le> ver" "version (F dbName) \<le> ver" "\<not> contains (objectStoreNames (F dbName)) currentStore"
  shows "openCursor F dbName ver currentStore cb u keyRange =
     (\<lparr>returns = Rejected (store_missing currentStore),
       calls = [CallOpenDatabase, CallValidateBeforeTransaction, CallCreateReadonlyTransaction],
       uncaught = Some (DOMException ''NotFoundError''), transactions = [], timeline = [],
       databases = F(dbName := (F dbName)\<lparr>version := ver\<rparr>)\<rparr>, u)"
  using assms by (simp add: openCursor_def prepare_missing)

lemma calls_openCursor:
  "calls (fst (openCursor F dbName ver currentStore cb u keyRange)) =
     (if 1 \<le> ver \<and> version (F dbName) \<le> ver then
        [CallOpenDatabase, CallValidateBeforeTransaction, CallCreateReadonlyTransaction]
      else [CallOpenDatabase])"
proof (cases "1 \<le> ver \<and> version (F dbName) \<le> ver")
  case False
  then show ?thesis by (simp add: openCursor_def prepare_closed)
next
  case True
  then have ok: "1 \<le> ver" "version (F dbName) \<le> ver" by simp_all
  show ?thesis
  proof (cases "find (\<lambda>s. storeName s = currentStore) (objectStores (F dbName))")
    case None
    then have "\<not> contains (objectStoreNames (F dbName)) currentStore"
      by (simp add: find_store_None)
    with ok show ?thesis by (simp add: openCursor_missing)
  next
    case (Some s)
    with ok show ?thesis
      by (simp add: openCursor_def prepare_found Let_def split: prod.splits)
  qed
qed






lemma resolve_twice: "resolve v (resolve v p) = resolve v p"
  by (cases p) (simp_all add: resolve_def)

lemma cursor_events_resolved:
  "cursor_events cb es u p = (fired, u', p') \<Longrightarrow>
   fired \<noteq> [] \<and> p' = resolve Undefined p \<and>
   hd fired = (RequestSuccess (case es of [] \<Rightarrow> Null | (k, v) # _ \<Rightarrow> Cursor k v), resolve Undefined p) \<and>
   (\<forall>x\<in>set fired. snd x = resolve Undefined p) \<and>
   u' = foldl (\<lambda>u e. fst (cb e u)) u (delivered fired) \<and>
   (\<forall>k v rest. es = (k, v) # rest \<and> \<not> snd (cb (Cursor k v) u) \<longrightarrow> delivered fired = [Cursor k v])"
proof (induction es arbitrary: u p fired u' p')
  case Nil
  then show ?case by (auto simp: Let_def split: prod.splits)
next
  case (Cons e es)
  obtain k v where e: "e = (k, v)" by (cases e)
  obtain u1 c where cb: "cb (Cursor k v) u = (u1, c)" by (cases "cb (Cursor k v) u")
  show ?case
  proof (cases c)
    case False
    with Cons.prems e cb show ?thesis by (auto simp: Let_def)
  next
    case True
    obtain f2 u2 p2 where rec: "cursor_events cb es u1 (resolve Undefined p) = (f2, u2, p2)"
      by (cases "cursor_events cb es u1 (resolve Undefined p)")
    from Cons.IH [OF rec] have ih: "p2 = resolve Undefined p"
      "\<forall>x\<in>set f2. snd x = resolve Undefined p"
      "u2 = foldl (\<lambda>u e. fst (cb e u)) u1 (delivered f2)"
      by (simp_all add: resolve_twice)
    from Cons.prems e cb True rec
    have "fired = (RequestSuccess (Cursor k v), resolve Undefined p) # f2" "u' = u2" "p' = p2"
      by (simp_all add: Let_def)
    with ih e cb True show ?thesis by simp
  qed
qed

lemma delivered_append: "delivered (xs @ ys) = delivered xs @ delivered ys"
  by (induction xs rule: delivered.induct) simp_all

lemma initDB_frozen: "frozen cfg \<Longrightarrow> fst (initDB cfg F nm ver metas migrations) = cfg"
  by (simp add: initDB_def)


text \<open>
  C4. A read operation (\<open>getAll\<close>, \<open>getByID\<close>, \<open>getByIndex\<close>, \<open>openCursor\<close>) on a store
  that the opened database does not have: the existence check rejects the promise (a
  call of \<open>reject\<close>, not an exception), and no transaction is started and no event
  fired. The operation still goes on to the transaction helper, whose
  \<open>NotFoundError\<close> escapes the callback with the promise already rejected; the
  callback of a cursor is never called.
\<close>

theorem read_operations_reject_missing_store:
  fixes F :: "string \<Rightarrow> ('k, 'v) IDBDatabase" and E :: "('k, 'v) engine"
    and dbName :: string and ver :: int and currentStore :: string
  defines "rejected \<equiv>
     \<lparr>returns = Rejected (store_missing currentStore),
      calls = [CallOpenDatabase, CallValidateBeforeTransaction, CallCreateReadonlyTransaction],
      uncaught = Some (DOMException ''NotFoundError''), transactions = [], timeline = [],
      databases = F(dbName := (F dbName)\<lparr>version := ver\<rparr>)\<rparr>"
  assumes "1 \<le> ver" and "version (F dbName) \<le> ver"
    and "\<not> contains (objectStoreNames (F dbName)) currentStore"
  shows "getAll E F dbName ver currentStore = rejected
    \<and> getByID E F dbName ver currentStore k = rejected
    \<and> getByIndex E F dbName ver currentStore indexName key = rejected
    \<and> openCursor F dbName ver currentStore cursorCallback u keyRange = (rejected, u)"
  using assms(2-4) unfolding rejected_def
  by (simp add: getAll_def getByID_def getByIndex_def perform_missing openCursor_missing)

theorem read_operations_reject_missing_store_witness:
  "returns (getAll given_keys (fresh :: string \<Rightarrow> (nat, string) IDBDatabase) ''db'' 1 ''people'') =
     Rejected (store_missing ''people'')
   \<and> transactions (getByID given_keys (fresh :: string \<Rightarrow> (nat, string) IDBDatabase) ''db'' 1 ''people'' 7) = []
   \<and> timeline (getByIndex given_keys (fresh :: string \<Rightarrow> (nat, string) IDBDatabase) ''db'' 1 ''people'' ''email'' 7) = []
   \<and> returns (fst (openCursor (fresh :: string \<Rightarrow> (nat, string) IDBDatabase) ''db'' 1 ''people''
        (\<lambda>c n. (Suc n, True)) (0::nat) None)) = Rejected (store_missing ''people'')
   \<and> snd (openCursor (fresh :: string \<Rightarrow> (nat, string) IDBDatabase) ''db'' 1 ''people''
        (\<lambda>c n. (Suc n, True)) (0::nat) None) = 0"
proof -
  let ?F = "fresh :: string \<Rightarrow> (nat, string) IDBDatabase"
  have h: "(1::int) \<le> 1" "version (?F ''db'') \<le> 1" "\<not> contains (objectStoreNames (?F ''db'')) ''people''"
    by (simp_all add: fresh_def contains_def objectStoreNames_def)
  from read_operations_reject_missing_store [where F = ?F and dbName = "''db''" and ver = 1
      and currentStore = "''people''" and E = given_keys and k = 7 and indexName = "''email''" and key = 7
      and cursorCallback = "\<lambda>c n. (Suc n, True)" and u = "0::nat" and keyRange = None, OF h]
  show ?thesis by simp
qed



text \<open>
  C6 (amended). \<open>openCursor\<close> on a store of the opened database: the promise is
  resolved by the handler of the first success event of the cursor, right after the
  callback returned for it (for the first entry, or for the end of the range when
  there is no entry), and stays so; the callback is called once for every success
  event, in order, and the cursor goes on only as far as the callback advances it.
\<close>

theorem openCursor_resolves_at_first_success:
  fixes F :: "string \<Rightarrow> ('k, 'v) IDBDatabase"
    and dbName :: string and ver :: int and currentStore :: string
    and cursorCallback :: "('k, 'v) js_value \<Rightarrow> 'u \<Rightarrow> 'u \<times> bool" and u :: 'u
    and keyRange :: "('k \<Rightarrow> bool) option" and s :: "('k, 'v) IDBObjectStore"
  defines "run \<equiv> openCursor F dbName ver currentStore cursorCallback u keyRange"
    and "entries \<equiv> (case keyRange of None \<Rightarrow> records s
                      | Some inRange \<Rightarrow> filter (\<lambda>(k, _). inRange k) (records s))"
  assumes ok: "1 \<le> ver" "version (F dbName) \<le> ver"
    and found: "find (\<lambda>s. storeName s = currentStore) (objectStores (F dbName)) = Some s"
  shows "timeline (fst run) \<noteq> []
    \<and> hd (timeline (fst run)) =
        (RequestSuccess (case entries of [] \<Rightarrow> Null | (k, v) # _ \<Rightarrow> Cursor k v), Resolved Undefined)
    \<and> (\<forall>x\<in>set (timeline (fst run)). snd x = Resolved Undefined)
    \<and> last (timeline (fst run)) = (TransactionComplete, Resolved Undefined)
    \<and> returns (fst run) = Resolved Undefined
    \<and> snd run = foldl (\<lambda>u e. fst (cursorCallback e u)) u (delivered (timeline (fst run)))
    \<and> (\<forall>k v rest. entries = (k, v) # rest \<and> \<not> snd (cursorCallback (Cursor k v) u) \<longrightarrow>
          delivered (timeline (fst run)) = [Cursor k v])"
proof -
  obtain fired u' p' where ce: "cursor_events cursorCallback entries u Pending = (fired, u', p')"
    by (cases "cursor_events cursorCallback entries u Pending")
  from cursor_events_resolved [OF ce]
  have c: "fired \<noteq> []" "p' = Resolved Undefined"
    "hd fired = (RequestSuccess (case entries of [] \<Rightarrow> Null | (k, v) # _ \<Rightarrow> Cursor k v), Resolved Undefined)"
    "\<forall>x\<in>set fired. snd x = Resolved Undefined"
    "u' = foldl (\<lambda>u e. fst (cursorCallback e u)) u (delivered fired)"
    "\<forall>k v rest. entries = (k, v) # rest \<and> \<not> snd (cursorCallback (Cursor k v) u) \<longrightarrow>
          delivered fired = [Cursor k v]"
    by (simp_all add: resolve_def)
  have run: "run = (\<lparr>returns = Resolved Undefined,
      calls = [CallOpenDatabase, CallValidateBeforeTransaction, CallCreateReadonlyTransaction],
      uncaught = None, transactions = [(currentStore, readonly)],
      timeline = fired @ [(TransactionComplete, Resolved Undefined)],
      databases = F(dbName := (F dbName)\<lparr>version := ver\<rparr>)\<rparr>, u')"
    unfolding run_def using ok found ce [unfolded entries_def] c(2)
    by (simp add: openCursor_def prepare_found final_def helper_oncomplete_def resolve_def)
  from c show ?thesis
    by (simp add: run delivered_append)
qed

theorem openCursor_resolves_at_first_success_witness:
  "timeline (fst (openCursor people_db ''db'' 1 ''people'' visiting [] None)) \<noteq> []
   \<and> hd (timeline (fst (openCursor people_db ''db'' 1 ''people'' visiting [] None))) =
        (RequestSuccess (Cursor 1 ''Ann''), Resolved Undefined)
   \<and> returns (fst (openCursor people_db ''db'' 1 ''people'' visiting [] None)) = Resolved Undefined"
proof -
  have h: "(1::int) \<le> 1" "version (people_db ''db'') \<le> 1"
    "find (\<lambda>s. storeName s = ''people'') (objectStores (people_db ''db'')) = Some people_store"
    by (simp_all add: people_db_def people_store_def)
  from openCursor_resolves_at_first_success [where F = people_db and dbName = "''db''" and ver = 1
      and currentStore = "''people''" and cursorCallback = visiting and u = "[]" and keyRange = None, OF h]
  show ?thesis by (simp add: people_store_def)
qed

text \<open>As first stated (the promise resolves once the completion of the traversal is
  signalled, the callback being called at each success event before that) the property
  fails: with two records and a callback that always advances, the promise is resolved
  after the first of three success events.\<close>

theorem openCursor_resolves_at_first_success_counterexample:
  "openCursor people_db ''db'' 1 ''people'' visiting [] None =
     (\<lparr>returns = Resolved Undefined,
       calls = [CallOpenDatabase, CallValidateBeforeTransaction, CallCreateReadonlyTransaction],
       uncaught = None, transactions = [(''people'', readonly)],
       timeline = [(RequestSuccess (Cursor 1 ''Ann''), Resolved Undefined),
                   (RequestSuccess (Cursor 2 ''Bob''), Resolved Undefined),
                   (RequestSuccess Null, Resolved Undefined),
                   (TransactionComplete, Resolved Undefined)],
       databases = people_db\<rparr>,
      [Cursor 1 ''Ann'', Cursor 2 ''Bob'', Null])"
  by (simp add: openCursor_def prepare_def openDatabase_def idb_open_def people_db_def people_store_def
      validateBeforeTransaction_def contains_def objectStoreNames_def createReadonlyTransaction_def
      transaction_def visiting_def final_def helper_oncomplete_def resolve_def fresh_def Let_def)

text \<open>
  C7. \<open>openDatabase\<close> with an upgrade callback, at a version above the stored one: the
  callback is called with the upgrade event while the promise is pending, but its
  second argument is never the database handle: the variable passed is assigned by the
  success handler only and is undefined at every call. A callback that uses the
  argument as a handle throws, the upgrade is aborted and the promise rejected.
\<close>

theorem openDatabase_forwards_undefined:
  "list_all (\<lambda>(event, db, p). db = None \<and> p = Pending)
     (forwarded (openDatabase F dbName ver upgradeCallback))
   \<and> openDatabase fresh ''db'' 2 (Some creating) =
       \<lparr>opened = Rejected (Text ''IndexedDB error: AbortError''),
        forwarded = [(\<lparr>oldVersion = 0, newVersion = Some 2\<rparr>, None, Pending)],
        opened_factory = fresh\<rparr>"
  by (auto simp: openDatabase_def idb_open_def Let_def creating_def fresh_def reject_def
      split: option.splits sum.splits)

text \<open>
  C8. \<open>useIndexedDB\<close> before any \<open>initDB\<close> throws the error of the library that asks
  for the initialization, for every store name; no operation is obtained.
\<close>

theorem useIndexedDB_before_initDB:
  "useIndexedDB initial_configuration objectStore =
     Inl (Error ''Please, initialize the DB before the use.'')"
  by (simp add: useIndexedDB_def initial_configuration_def)




text \<open>
  C10. \<open>add\<close> never calls \<open>validateBeforeTransaction\<close>; whenever the database opens,
  \<open>add\<close> goes from \<open>openDatabase\<close> straight to its read-write transaction, and each of
  the seven other operations calls \<open>validateBeforeTransaction\<close> before its transaction
  helper. On a store that the database does not have, the promise of \<open>add\<close> is left
  pending (the \<open>NotFoundError\<close> of the transaction escapes), the promises of the others
  are rejected by the check.
\<close>

theorem add_alone_skips_validation:
  fixes F :: "string \<Rightarrow> ('k, 'v) IDBDatabase" and E :: "('k, 'v) engine"
  shows "CallValidateBeforeTransaction \<notin> set (calls (add E F dbName ver currentStore v key))
    \<and> (1 \<le> ver \<and> version (F dbName) \<le> ver \<longrightarrow>
         calls (add E F dbName ver currentStore v key) =
           [CallOpenDatabase, CallCreateReadwriteTransaction]
       \<and> calls (getAll E F dbName ver currentStore) =
           [CallOpenDatabase, CallValidateBeforeTransaction, CallCreateReadonlyTransaction]
       \<and> calls (getByID E F dbName ver currentStore k) =
           [CallOpenDatabase, CallValidateBeforeTransaction, CallCreateReadonlyTransaction]
       \<and> calls (getByIndex E F dbName ver currentStore indexName ik) =
           [CallOpenDatabase, CallValidateBeforeTransaction, CallCreateReadonlyTransaction]
       \<and> calls (fst (openCursor F dbName ver currentStore cursorCallback u keyRange)) =
           [CallOpenDatabase, CallValidateBeforeTransaction, CallCreateReadonlyTransaction]
       \<and> calls (update E F dbName ver currentStore v key) =
           [CallOpenDatabase, CallValidateBeforeTransaction, CallCreateReadwriteTransaction]
       \<and> calls (deleteRecord E F dbName ver currentStore k) =
           [CallOpenDatabase, CallValidateBeforeTransaction, CallCreateReadwriteTransaction]
       \<and> calls (clear E F dbName ver currentStore) =
           [CallOpenDatabase, CallValidateBeforeTransaction, CallCreateReadwriteTransaction])
    \<and> (1 \<le> ver \<and> version (F dbName) \<le> ver \<and>
         \<not> contains (objectStoreNames (F dbName)) currentStore \<longrightarrow>
         returns (add E F dbName ver currentStore v key) = Pending
       \<and> uncaught (add E F dbName ver currentStore v key) = Some (DOMException ''NotFoundError'')
       \<and> returns (update E F dbName ver currentStore v key) = Rejected (store_missing currentStore)
       \<and> returns (deleteRecord E F dbName ver currentStore k) = Rejected (store_missing currentStore)
       \<and> returns (clear E F dbName ver currentStore) = Rejected (store_missing currentStore)
       \<and> returns (getAll E F dbName ver currentStore) = Rejected (store_missing currentStore)
       \<and> returns (getByID E F dbName ver currentStore k) = Rejected (store_missing currentStore)
       \<and> returns (getByIndex E F dbName ver currentStore indexName ik) = Rejected (store_missing currentStore)
       \<and> returns (fst (openCursor F dbName ver currentStore cursorCallback u keyRange)) =
           Rejected (store_missing currentStore))"
proof -
  have a: "CallValidateBeforeTransaction \<notin> set (calls (add E F dbName ver currentStore v key))"
    by (simp add: add_def calls_perform)
  have b: "calls (add E F dbName ver currentStore v key) =
           [CallOpenDatabase, CallCreateReadwriteTransaction]
       \<and> calls (getAll E F dbName ver currentStore) =
           [CallOpenDatabase, CallValidateBeforeTransaction, CallCreateReadonlyTransaction]
       \<and> calls (getByID E F dbName ver currentStore k) =
           [CallOpenDatabase, CallValidateBeforeTransaction, CallCreateReadonlyTransaction]
       \<and> calls (getByIndex E F dbName ver currentStore indexName ik) =
           [CallOpenDatabase, CallValidateBeforeTransaction, CallCreateReadonlyTransaction]
       \<and> calls (fst (openCursor F dbName ver currentStore cursorCallback u keyRange)) =
           [CallOpenDatabase, CallValidateBeforeTransaction, CallCreateReadonlyTransaction]
       \<and> calls (update E F dbName ver currentStore v key) =
           [CallOpenDatabase, CallValidateBeforeTransaction, CallCreateReadwriteTransaction]
       \<and> calls (deleteRecord E F dbName ver currentStore k) =
           [CallOpenDatabase, CallValidateBeforeTransaction, CallCreateReadwriteTransaction]
       \<and> calls (clear E F dbName ver currentStore) =
           [CallOpenDatabase, CallValidateBeforeTransaction, CallCreateReadwriteTransaction]"
    if "1 \<le> ver \<and> version (F dbName) \<le> ver"
    using that
    by (simp add: add_def getAll_def getByID_def getByIndex_def update_def deleteRecord_def
        clear_def calls_perform calls_openCursor)
  have c: "returns (add E F dbName ver currentStore v key) = Pending
       \<and> uncaught (add E F dbName ver currentStore v key) = Some (DOMException ''NotFoundError'')
       \<and> returns (update E F dbName ver currentStore v key) = Rejected (store_missing currentStore)
       \<and> returns (deleteRecord E F dbName ver currentStore k) = Rejected (store_missing currentStore)
       \<and> returns (clear E F dbName ver currentStore) = Rejected (store_missing currentStore)
       \<and> returns (getAll E F dbName ver currentStore) = Rejected (store_missing currentStore)
       \<and> returns (getByID E F dbName ver currentStore k) = Rejected (store_missing currentStore)
       \<and> returns (getByIndex E F dbName ver currentStore indexName ik) = Rejected (store_missing currentStore)
       \<and> returns (fst (openCursor F dbName ver currentStore cursorCallback u keyRange)) =
           Rejected (store_missing currentStore)"
    if "1 \<le> ver \<and> version (F dbName) \<le> ver \<and>
         \<not> contains (objectStoreNames (F dbName)) currentStore"
    using that
    by (simp add: add_def getAll_def getByID_def getByIndex_def update_def deleteRecord_def
        clear_def perform_missing openCursor_missing)
  from a b c show ?thesis by blast
qed

theorem add_alone_skips_validation_witness:
  "returns (add given_keys fresh ''db'' 1 ''people'' ''Ann'' (Some 7)) = Pending
   \<and> uncaught (add given_keys fresh ''db'' 1 ''people'' ''Ann'' (Some 7)) = Some (DOMException ''NotFoundError'')
   \<and> calls (add given_keys fresh ''db'' 1 ''people'' ''Ann'' (Some 7)) =
        [CallOpenDatabase, CallCreateReadwriteTransaction]
   \<and> returns (update given_keys fresh ''db'' 1 ''people'' ''Ann'' (Some 7)) =
        Rejected (store_missing ''people'')
   \<and> calls (update given_keys fresh ''db'' 1 ''people'' ''Ann'' (Some 7)) =
        [CallOpenDatabase, CallValidateBeforeTransaction, CallCreateReadwriteTransaction]"
proof -
  let ?F = "fresh :: string \<Rightarrow> (nat, string) IDBDatabase"
  have h: "(1::int) \<le> 1 \<and> version (?F ''db'') \<le> 1"
    "(1::int) \<le> 1 \<and> version (?F ''db'') \<le> 1 \<and> \<not> contains (objectStoreNames (?F ''db'')) ''people''"
    by (simp_all add: fresh_def contains_def objectStoreNames_def)
  note t = add_alone_skips_validation [where F = ?F and dbName = "''db''" and ver = 1
      and currentStore = "''people''" and E = given_keys and v = "''Ann''" and key = "Some 7"
      and k = 7 and indexName = "''email''" and ik = 7
      and cursorCallback = "\<lambda>c n. (Suc n, True)" and u = "0::nat" and keyRange = None]
  from t [THEN conjunct2, THEN conjunct1, rule_format, OF h(1)]
    t [THEN conjunct2, THEN conjunct2, rule_format, OF h(2)]
  show ?thesis by simp
qed

end
